theory Spec2Isabelle
  imports Main "HOL-Library.Sublist"
begin

section \<open>The popup controller of the page assistant (frontend/popup.js)\<close>

text \<open>
  The popup is event driven: every listener and every promise callback of popup.js runs
  to completion on the state of the popup (the chat history, the elements it touches, the
  theme storage and the operations still waiting for an answer). Each of them is a
  function from state to state here, and an event of the browser selects which one runs.
  A call that can throw returns what it threw, if it did, together with the state it
  reached; the \<open>catch\<close> and \<open>finally\<close> of a promise chain go on from there.
\<close>

subsection \<open>JavaScript values\<close>

text \<open>
  The values the handlers see: what \<open>getAttribute\<close> and a missing property give
  (\<open>null\<close>, \<open>undefined\<close>) and the values of a JSON body. A number is kept as the text
  JavaScript prints for it (\<open>0\<close> for zero): the handlers test and print numbers and do
  not compute with them. Strings are byte strings, a character outside ASCII being its
  UTF-8 bytes.
\<close>

datatype jsval =
    JUndefined
  | JNull
  | JBool bool
  | JNum string
  | JStr string
  | JArr "jsval list"
  | JObj "(string \<times> jsval) list"

fun is_str :: "jsval \<Rightarrow> bool" where
  "is_str (JStr s) = True"
| "is_str v = False"

text \<open>What \<open>if (v)\<close> and \<open>!v\<close> test.\<close>

fun truthy :: "jsval \<Rightarrow> bool" where
  "truthy JUndefined = False"
| "truthy JNull = False"
| "truthy (JBool b) = b"
| "truthy (JNum r) = (r \<noteq> ''0'')"
| "truthy (JStr s) = (s \<noteq> [])"
| "truthy (JArr xs) = True"
| "truthy (JObj fs) = True"

text \<open>Joining strings with a separator, as \<open>Array.prototype.join\<close> does.\<close>

fun join :: "string \<Rightarrow> string list \<Rightarrow> string" where
  "join sep [] = []"
| "join sep [x] = x"
| "join sep (x # y # ys) = x @ sep @ join sep (y # ys)"

text \<open>
  What a handler can throw: the TypeError of a value that has no string form, and the
  error of \<open>marked.parse\<close> on the text it was given. The texts of these errors belong to
  the browser and to the library: the handlers that catch one take \<open>error.message\<close> from
  a function \<open>message\<close> on what was thrown, which is a parameter of the model.
\<close>

datatype thrown =
    NotPrimitive
  | MarkedInput jsval

text \<open>
  The string a template literal \<open>`${v}`\<close> puts in, \<open>None\<close> when the conversion throws.
  An array is its elements joined by commas, \<open>null\<close> and \<open>undefined\<close> elements being
  empty there. An object of a JSON body is \<open>[object Object]\<close> unless it has a field
  \<open>toString\<close> of its own: that field is no function, \<open>valueOf\<close> gives no primitive
  either, and the conversion throws a TypeError.
\<close>

fun js_string :: "jsval \<Rightarrow> string option" where
  "js_string JUndefined = Some ''undefined''"
| "js_string JNull = Some ''null''"
| "js_string (JBool b) = Some (if b then ''true'' else ''false'')"
| "js_string (JNum r) = Some r"
| "js_string (JStr s) = Some s"
| "js_string (JArr xs) =
     map_option (join '','')
       (those (map (\<lambda>x. if x = JUndefined \<or> x = JNull then Some [] else js_string x) xs))"
| "js_string (JObj fs) =
     (if ''toString'' \<in> set (map fst fs) then None else Some ''[object Object]'')"

text \<open>
  Reading a property of a parsed JSON object, given as its fields: a missing one is
  \<open>undefined\<close>. A body that parses to a string, a number, a boolean or an array has
  neither \<open>error\<close> nor \<open>answer\<close> and is the object without fields to the callbacks; on
  one that parses to \<open>null\<close> reading \<open>data.error\<close> throws before the callback has done
  anything that its \<open>catch\<close> does not do again, which is the rejection of the fetch with
  the message of that TypeError.
\<close>

type_synonym fields = "(string \<times> jsval) list"

definition property :: "fields \<Rightarrow> string \<Rightarrow> jsval" where
  "property data k = (case map_of data k of None \<Rightarrow> JUndefined | Some v \<Rightarrow> v)"

text \<open>
  \<open>String.prototype.trim\<close> removes white space and line terminators from both ends:
  U+0009 to U+000D, U+0020, U+00A0, U+1680, U+2000 to U+200A, U+2028, U+2029, U+202F,
  U+205F, U+3000 and U+FEFF, here each as its UTF-8 bytes.
\<close>

definition white_space :: "string list" where
  "white_space =
     [[CHR 0x09], [CHR 0x0A], [CHR 0x0B], [CHR 0x0C], [CHR 0x0D], [CHR 0x20],
      [CHR 0xC2, CHR 0xA0],
      [CHR 0xE1, CHR 0x9A, CHR 0x80],
      [CHR 0xE2, CHR 0x80, CHR 0x80], [CHR 0xE2, CHR 0x80, CHR 0x81],
      [CHR 0xE2, CHR 0x80, CHR 0x82], [CHR 0xE2, CHR 0x80, CHR 0x83],
      [CHR 0xE2, CHR 0x80, CHR 0x84], [CHR 0xE2, CHR 0x80, CHR 0x85],
      [CHR 0xE2, CHR 0x80, CHR 0x86], [CHR 0xE2, CHR 0x80, CHR 0x87],
      [CHR 0xE2, CHR 0x80, CHR 0x88], [CHR 0xE2, CHR 0x80, CHR 0x89],
      [CHR 0xE2, CHR 0x80, CHR 0x8A],
      [CHR 0xE2, CHR 0x80, CHR 0xA8], [CHR 0xE2, CHR 0x80, CHR 0xA9],
      [CHR 0xE2, CHR 0x80, CHR 0xAF],
      [CHR 0xE2, CHR 0x81, CHR 0x9F],
      [CHR 0xE3, CHR 0x80, CHR 0x80],
      [CHR 0xEF, CHR 0xBB, CHR 0xBF]]"

text \<open>The length of the first of the sequences \<open>ws\<close> that \<open>s\<close> starts with, 0 if none.\<close>

fun leading :: "string list \<Rightarrow> string \<Rightarrow> nat" where
  "leading [] s = 0"
| "leading (w # ws) s = (if w \<noteq> [] \<and> prefix w s then length w else leading ws s)"

text \<open>Removing such sequences from the start for as long as there is one.\<close>

function strip :: "string list \<Rightarrow> string \<Rightarrow> string" where
  "strip ws s = (if leading ws s = 0 then s else strip ws (drop (leading ws s) s))"
  by pat_completeness auto
termination
proof (relation "measure (\<lambda>(ws, s). length s)")
  show "wf (measure (\<lambda>(ws, s). length s))" by simp
next
  fix ws :: "string list" and s :: string
  assume pos: "leading ws s \<noteq> 0"
  have "leading ws s \<le> length s"
    by (induction ws) (auto simp: prefix_length_le)
  with pos show "((ws, drop (leading ws s) s), (ws, s)) \<in> measure (\<lambda>(ws, s). length s)"
    by simp
qed

definition trim :: "string \<Rightarrow> string" where
  "trim s = rev (strip (map rev white_space) (rev (strip white_space s)))"

text \<open>\<open>String.prototype.endsWith\<close> and \<open>String.prototype.includes\<close>.\<close>

definition endsWith :: "string \<Rightarrow> string \<Rightarrow> bool" where
  "endsWith s t = suffix t s"

fun js_includes :: "string \<Rightarrow> string \<Rightarrow> bool" where
  "js_includes [] t = (t = [])"
| "js_includes (c # s) t = (prefix t (c # s) \<or> js_includes s t)"

text \<open>The pictographs of the messages, as UTF-8.\<close>

definition cross_mark :: string where
  "cross_mark = [CHR 0xE2, CHR 0x9D, CHR 0x8C]"

definition check_mark :: string where
  "check_mark = [CHR 0xE2, CHR 0x9C, CHR 0x85]"

definition magnifier :: string where
  "magnifier = [CHR 0xF0, CHR 0x9F, CHR 0x94, CHR 0x8D]"

definition page_icon :: string where
  "page_icon = [CHR 0xF0, CHR 0x9F, CHR 0x93, CHR 0x84]"

definition camera_icon :: string where
  "camera_icon = [CHR 0xF0, CHR 0x9F, CHR 0x8E, CHR 0xA5]"

definition globe_icon :: string where
  "globe_icon = [CHR 0xF0, CHR 0x9F, CHR 0x8C, CHR 0x90]"

definition moon_icon :: string where
  "moon_icon = [CHR 0xF0, CHR 0x9F, CHR 0x8C, CHR 0x99]"

definition sun_icon :: string where
  "sun_icon = [CHR 0xE2, CHR 0x98, CHR 0x80, CHR 0xEF, CHR 0xB8, CHR 0x8F]"

subsection \<open>The state of the popup\<close>

text \<open>
  The children of \<open>#chat-window\<close>: the placeholder of class \<open>empty-state\<close> and the
  message elements that \<open>addMessageToChat\<close> creates. A message element has an identity
  (the handlers keep a reference to the "Thinking..." element and remove it later), its
  class name and what it shows.

  Modelled from the spec: \<open>marked.parse\<close> is the external Markdown library, not part of
  the sources; the spec has it render the backend's answers as markup. It renders a
  string and throws on a text that is not a string. The element keeps the text it
  renders, \<open>Markdown text\<close> standing for the markup with its copy button.
\<close>

definition marked_parse :: "jsval \<Rightarrow> thrown + jsval" where
  "marked_parse text = (if is_str text then Inr text else Inl (MarkedInput text))"

datatype shown =
    TextContent jsval
  | TypingIndicator
  | Markdown jsval

datatype node =
    EmptyState
  | MessageDiv nat string shown

text \<open>
  An operation whose callback has not run yet: the fetch of \<open>sendQuestion\<close> (its
  callbacks hold the "Thinking..." element), \<open>chrome.tabs.query\<close>,
  \<open>chrome.scripting.executeScript\<close> and the fetch of \<open>fetchAndProcess\<close>.
\<close>

datatype pending_op =
    AskFetch nat
  | TabsQuery
  | ScriptExec
  | ProcFetch

text \<open>A call of \<open>fetch\<close>: the URL, the options, and the value given to \<open>JSON.stringify\<close>.\<close>

record request =
  url :: string
  "method" :: string
  headers :: "(string \<times> string) list"
  body :: jsval

record popup =
  chatHistory :: "jsval list"
  chatWindow :: "node list"
  fresh :: nat
  statusClass :: string
  statusText :: string
  askDisabled :: bool
  inputDisabled :: bool
  inputValue :: string
  processDisabled :: bool
  processLoading :: bool
  quickDisplay :: string
  dataTheme :: "string option"
  storedTheme :: "string option"
  themeIcon :: string
  pending :: "pending_op list"
  sent :: "request list"

text \<open>
  \<open>fresh\<close> numbers the elements created, \<open>pending\<close> holds the operations waiting for
  their callback and \<open>sent\<close> lists every \<open>fetch\<close> made so far: the three are the
  bookkeeping of the model. \<open>processLoading\<close> is the class \<open>loading\<close> of the process
  button, \<open>quickDisplay\<close> the \<open>style.display\<close> of the quick prompts, \<open>dataTheme\<close> the
  attribute \<open>data-theme\<close> of the document and \<open>storedTheme\<close> the entry \<open>theme\<close> of
  \<open>localStorage\<close>.
\<close>

subsection \<open>The top-level functions\<close>

text \<open>
  \<open>addMessageToChat\<close> removes the placeholder and creates the element before it comes
  to \<open>marked.parse\<close>: when that throws, the placeholder is gone and the element is not in
  the chat window. It returns the element, or what was thrown. Every caller but one gives
  it a string, with which it returns; those callers go on from the state it reached.
\<close>

definition addMessageToChat :: "string \<Rightarrow> jsval \<Rightarrow> popup \<Rightarrow> (thrown + nat) \<times> popup" where
  "addMessageToChat sender text s =
     (let s1 = s\<lparr>chatWindow := remove1 EmptyState (chatWindow s)\<rparr>;
          messageDiv = fresh s1;
          s2 = s1\<lparr>fresh := Suc (fresh s1)\<rparr>;
          className = (if sender = ''user'' then ''message user-message''
                       else ''message ai-message'');
          appended = (\<lambda>content.
            (Inr messageDiv,
             s2\<lparr>chatWindow := chatWindow s2 @ [MessageDiv messageDiv className content]\<rparr>))
      in if sender = ''user'' then appended (TextContent text)
         else if text = JStr ''Thinking...'' then appended TypingIndicator
         else (case marked_parse text of
                 Inl e \<Rightarrow> (Inl e, s2)
               | Inr html \<Rightarrow> appended (Markdown html)))"

definition updateStatus :: "string \<Rightarrow> string \<Rightarrow> popup \<Rightarrow> popup" where
  "updateStatus status text s =
     s\<lparr>statusClass := ''status-badge '' @ status, statusText := text\<rparr>"

definition base_url :: string where
  "base_url = ''http://127.0.0.1:5000''"

definition post :: "string \<Rightarrow> jsval \<Rightarrow> request" where
  "post u b = \<lparr>url = u, method = ''POST'',
               headers = [(''Content-Type'', ''application/json'')], body = b\<rparr>"

definition human_record :: "jsval \<Rightarrow> jsval" where
  "human_record question = JObj [(''type'', JStr ''human''), (''content'', question)]"

definition ai_record :: "jsval \<Rightarrow> jsval" where
  "ai_record answer = JObj [(''type'', JStr ''ai''), (''content'', answer)]"

definition sendQuestion :: "jsval \<Rightarrow> popup \<Rightarrow> popup" where
  "sendQuestion question s =
     (if \<not> truthy question then s
      else
        let s1 = snd (addMessageToChat ''user'' question s);
            s2 = s1\<lparr>chatHistory := chatHistory s1 @ [human_record question]\<rparr>;
            s3 = s2\<lparr>inputValue := [], askDisabled := True, inputDisabled := True\<rparr>
        in case addMessageToChat ''ai'' (JStr ''Thinking...'') s3 of
             (Inl e, s4) \<Rightarrow> s4
           | (Inr thinkingMessage, s4) \<Rightarrow>
               s4\<lparr>sent := sent s4 @
                      [post (base_url @ ''/ask'')
                         (JObj [(''question'', question), (''history'', JArr (chatHistory s4))])],
                   pending := pending s4 @ [AskFetch thinkingMessage]\<rparr>)"

text \<open>\<open>thinkingMessage.remove()\<close>: the element leaves the chat window, if it is still there.\<close>

fun is_node :: "nat \<Rightarrow> node \<Rightarrow> bool" where
  "is_node i EmptyState = False"
| "is_node i (MessageDiv j c x) = (i = j)"

definition remove_node :: "nat \<Rightarrow> popup \<Rightarrow> popup" where
  "remove_node i s = s\<lparr>chatWindow := filter (\<lambda>n. \<not> is_node i n) (chatWindow s)\<rparr>"

text \<open>The \<open>finally\<close> of \<open>sendQuestion\<close>.\<close>

definition ask_finally :: "popup \<Rightarrow> popup" where
  "ask_finally s = s\<lparr>askDisabled := False, inputDisabled := False\<rparr>"

text \<open>
  The callback \<open>data => {...}\<close> of \<open>sendQuestion\<close>, on the parsed JSON \<open>data\<close>. It throws
  when \<open>data.error\<close> has no string form and when \<open>marked.parse\<close> throws on
  \<open>data.answer\<close>: the push of the AI record, which comes after, is then not reached.
\<close>

definition ask_data :: "nat \<Rightarrow> fields \<Rightarrow> popup \<Rightarrow> thrown option \<times> popup" where
  "ask_data thinkingMessage data s =
     (let s1 = remove_node thinkingMessage s
      in if truthy (property data ''error'') then
           (case js_string (property data ''error'') of
              None \<Rightarrow> (Some NotPrimitive, s1)
            | Some m \<Rightarrow>
                (case addMessageToChat ''ai'' (JStr (cross_mark @ '' Error: '' @ m)) s1 of
                   (Inl e, s2) \<Rightarrow> (Some e, s2)
                 | (Inr d, s2) \<Rightarrow> (None, s2)))
         else
           (case addMessageToChat ''ai'' (property data ''answer'') s1 of
              (Inl e, s2) \<Rightarrow> (Some e, s2)
            | (Inr d, s2) \<Rightarrow>
                (None,
                 s2\<lparr>chatHistory := chatHistory s2 @ [ai_record (property data ''answer'')]\<rparr>)))"

text \<open>
  The \<open>catch\<close> of \<open>sendQuestion\<close>, on an error of message \<open>msg\<close>, followed by the
  \<open>finally\<close>: what runs when the fetch is rejected.
\<close>

definition ask_catch :: "nat \<Rightarrow> string \<Rightarrow> popup \<Rightarrow> popup" where
  "ask_catch thinkingMessage msg s =
     (let s1 = remove_node thinkingMessage s;
          s2 = snd (addMessageToChat ''ai'' (JStr (cross_mark @ '' Error: '' @ msg)) s1)
      in ask_finally s2)"

text \<open>
  What runs when the fetch gave \<open>data\<close>: the callback and the \<open>finally\<close>, with the
  \<open>catch\<close> between them when the callback threw.
\<close>

definition ask_then :: "(thrown \<Rightarrow> string) \<Rightarrow> nat \<Rightarrow> fields \<Rightarrow> popup \<Rightarrow> popup" where
  "ask_then message thinkingMessage data s =
     (case ask_data thinkingMessage data s of
        (None, s1) \<Rightarrow> ask_finally s1
      | (Some e, s1) \<Rightarrow> ask_catch thinkingMessage (message e) s1)"

subsection \<open>The listeners set up when the document is loaded\<close>

text \<open>Loading the theme preference, first thing in the \<open>DOMContentLoaded\<close> listener.\<close>

definition updateThemeIcon :: "string \<Rightarrow> popup \<Rightarrow> popup" where
  "updateThemeIcon theme s =
     s\<lparr>themeIcon := (if theme = ''light'' then moon_icon else sun_icon)\<rparr>"

definition load_theme :: "popup \<Rightarrow> popup" where
  "load_theme s =
     (let savedTheme = (case storedTheme s of
                          None \<Rightarrow> ''light''
                        | Some t \<Rightarrow> if t \<noteq> [] then t else ''light'')
      in updateThemeIcon savedTheme (s\<lparr>dataTheme := Some savedTheme\<rparr>))"

definition themeToggle_click :: "popup \<Rightarrow> popup" where
  "themeToggle_click s =
     (let currentTheme = dataTheme s;
          newTheme = (if currentTheme = Some ''light'' then ''dark'' else ''light'')
      in updateThemeIcon newTheme (s\<lparr>dataTheme := Some newTheme, storedTheme := Some newTheme\<rparr>))"

text \<open>
  \<open>showError\<close> builds its first text before it changes anything: when the message has
  no string form it throws there and the state is as it was.
\<close>

definition showError :: "jsval \<Rightarrow> popup \<Rightarrow> thrown option \<times> popup" where
  "showError errorMessage s =
     (case js_string errorMessage of
        None \<Rightarrow> (Some NotPrimitive, s)
      | Some m \<Rightarrow>
          (let s1 = updateStatus ''error'' (''Error: '' @ m) s;
               s2 = snd (addMessageToChat ''ai'' (JStr (cross_mark @ '' Error: '' @ m)) s1)
           in (None, s2\<lparr>processDisabled := False, processLoading := False\<rparr>)))"

text \<open>\<open>fetchAndProcess\<close> starts its fetch; the callbacks follow below.\<close>

definition fetchAndProcess :: "string \<Rightarrow> jsval \<Rightarrow> popup \<Rightarrow> popup" where
  "fetchAndProcess u b s = s\<lparr>sent := sent s @ [post u b], pending := pending s @ [ProcFetch]\<rparr>"

definition proc_finally :: "popup \<Rightarrow> popup" where
  "proc_finally s = s\<lparr>processDisabled := False, processLoading := False\<rparr>"

text \<open>The callback \<open>data => {...}\<close> of \<open>fetchAndProcess\<close>.\<close>

definition proc_data :: "fields \<Rightarrow> popup \<Rightarrow> thrown option \<times> popup" where
  "proc_data data s =
     (if truthy (property data ''error'') then showError (property data ''error'') s
      else
        let s2 = updateStatus ''ready'' ''Ready to answer questions!'' s;
            s3 = s2\<lparr>askDisabled := False, inputDisabled := False,
                    quickDisplay := ''flex'', chatWindow := []\<rparr>
        in (None,
            snd (addMessageToChat ''ai''
              (JStr (check_mark @ '' I've finished reading. What would you like to know?''))
              s3)))"

text \<open>The \<open>catch\<close> of \<open>fetchAndProcess\<close> followed by its \<open>finally\<close>.\<close>

definition proc_catch :: "string \<Rightarrow> popup \<Rightarrow> popup" where
  "proc_catch msg s =
     proc_finally (snd (showError (JStr (''Cannot connect to backend server. '' @ msg)) s))"

text \<open>
  What runs when the fetch gave \<open>data\<close>: the callback and the \<open>finally\<close>, with the
  \<open>catch\<close> between them when the callback threw.
\<close>

definition proc_then :: "(thrown \<Rightarrow> string) \<Rightarrow> fields \<Rightarrow> popup \<Rightarrow> popup" where
  "proc_then message data s =
     (case proc_data data s of
        (None, s1) \<Rightarrow> proc_finally s1
      | (Some e, s1) \<Rightarrow> proc_catch (message e) s1)"

definition processButton_click :: "popup \<Rightarrow> popup" where
  "processButton_click s =
     (let s1 = updateStatus ''processing'' ''Processing...'' s;
          s2 = s1\<lparr>processDisabled := True, processLoading := True, askDisabled := True,
                  inputDisabled := True, quickDisplay := ''none'', chatWindow := [],
                  chatHistory := []\<rparr>;
          s3 = snd (addMessageToChat ''ai''
                 (JStr (magnifier @ '' Figuring out what to read...'')) s2)
      in s3\<lparr>pending := pending s3 @ [TabsQuery]\<rparr>)"

text \<open>
  The callback of \<open>chrome.tabs.query\<close>. \<open>pageUrl\<close> is \<open>tabs[0].url\<close>, \<open>None\<close> when
  there is no such tab or the tab gives no URL: \<open>pageUrl.endsWith\<close> then throws, nothing
  catches it and the callback ends there. \<open>URL\<close> and \<open>URLSearchParams\<close> belong to the browser; what
  \<open>urlParams.get('v')\<close> returns for the page is the argument \<open>v\<close> (\<open>None\<close> for
  \<open>null\<close>).
\<close>

definition tabs_callback :: "string option \<Rightarrow> string option \<Rightarrow> popup \<Rightarrow> popup" where
  "tabs_callback tab_url v s =
     (case tab_url of
        None \<Rightarrow> s
      | Some pageUrl \<Rightarrow>
          if endsWith pageUrl ''.pdf'' then
            fetchAndProcess (base_url @ ''/process_pdf'') (JObj [(''pdf_url'', JStr pageUrl)])
              (snd (addMessageToChat ''ai''
                 (JStr (page_icon @ '' Found a PDF! Fetching and reading...'')) s))
          else if js_includes pageUrl ''youtube.com/watch'' then
            (let videoId = (case v of None \<Rightarrow> JNull | Some i \<Rightarrow> JStr i)
             in if truthy videoId then
                  fetchAndProcess (base_url @ ''/process_youtube'') (JObj [(''videoId'', videoId)])
                    (snd (addMessageToChat ''ai''
                       (JStr (camera_icon @ '' Found a YouTube video! Fetching transcript...'')) s))
                else snd (showError (JStr ''Could not find YouTube video ID'') s))
          else
            (let s1 = snd (addMessageToChat ''ai''
                        (JStr (globe_icon @ '' Reading the webpage content...'')) s)
             in s1\<lparr>pending := pending s1 @ [ScriptExec]\<rparr>))"

text \<open>
  The callback of \<open>chrome.scripting.executeScript\<close>: \<open>None\<close> when
  \<open>chrome.runtime.lastError\<close> is set or there is no first result, else the source of the page.
\<close>

definition script_callback :: "string option \<Rightarrow> popup \<Rightarrow> popup" where
  "script_callback injected s =
     (case injected of
        None \<Rightarrow> snd (showError (JStr ''Could not access this page'') s)
      | Some pageHtml \<Rightarrow>
          fetchAndProcess (base_url @ ''/process_webpage'') (JObj [(''content'', JStr pageHtml)]) s)"

definition askButton_click :: "popup \<Rightarrow> popup" where
  "askButton_click s = (let question = trim (inputValue s) in sendQuestion (JStr question) s)"

text \<open>
  \<open>askButton.click()\<close>, and a click of the user on the button: a disabled button
  dispatches no click event.
\<close>

definition askButton_dot_click :: "popup \<Rightarrow> popup" where
  "askButton_dot_click s = (if askDisabled s then s else askButton_click s)"

definition questionInput_keypress :: "string \<Rightarrow> popup \<Rightarrow> popup" where
  "questionInput_keypress key s =
     (if key = ''Enter'' \<and> \<not> askDisabled s then askButton_dot_click s else s)"

text \<open>A quick-prompt button, \<open>attr\<close> being its attribute \<open>data-prompt\<close> if it has one.\<close>

definition quickPrompt_click :: "string option \<Rightarrow> popup \<Rightarrow> popup" where
  "quickPrompt_click attr s =
     (let prompt = (case attr of None \<Rightarrow> JNull | Some p \<Rightarrow> JStr p) in sendQuestion prompt s)"

subsection \<open>Events\<close>

text \<open>
  What can happen to an open popup: the user acts on a control, or an operation that is
  pending calls back. The browser dispatches no click on a disabled button or on a button
  inside a container that is not displayed, and no typing or key press on a disabled input;
  a callback runs once, for an operation that is pending.
\<close>

datatype event =
    AskClick
  | KeyPress string
  | TypeText string
  | QuickPromptClick "string option"
  | ProcessClick
  | ThemeToggle
  | AskResolved nat fields
  | AskRejected nat string
  | TabsResult "string option" "string option"
  | ScriptResult "string option"
  | ProcResolved fields
  | ProcRejected string

definition settle :: "pending_op \<Rightarrow> popup \<Rightarrow> popup" where
  "settle p s = s\<lparr>pending := remove1 p (pending s)\<rparr>"

fun step :: "(thrown \<Rightarrow> string) \<Rightarrow> popup \<Rightarrow> event \<Rightarrow> popup" where
  "step message s AskClick = askButton_dot_click s"
| "step message s (KeyPress key) =
     (if inputDisabled s then s else questionInput_keypress key s)"
| "step message s (TypeText t) = (if inputDisabled s then s else s\<lparr>inputValue := t\<rparr>)"
| "step message s (QuickPromptClick attr) =
     (if quickDisplay s = ''none'' then s else quickPrompt_click attr s)"
| "step message s ProcessClick = (if processDisabled s then s else processButton_click s)"
| "step message s ThemeToggle = themeToggle_click s"
| "step message s (AskResolved t data) =
     (if AskFetch t \<in> set (pending s) then ask_then message t data (settle (AskFetch t) s)
      else s)"
| "step message s (AskRejected t msg) =
     (if AskFetch t \<in> set (pending s) then ask_catch t msg (settle (AskFetch t) s) else s)"
| "step message s (TabsResult tab_url v) =
     (if TabsQuery \<in> set (pending s) then tabs_callback tab_url v (settle TabsQuery s) else s)"
| "step message s (ScriptResult injected) =
     (if ScriptExec \<in> set (pending s) then script_callback injected (settle ScriptExec s)
      else s)"
| "step message s (ProcResolved data) =
     (if ProcFetch \<in> set (pending s) then proc_then message data (settle ProcFetch s) else s)"
| "step message s (ProcRejected msg) =
     (if ProcFetch \<in> set (pending s) then proc_catch msg (settle ProcFetch s) else s)"

definition run :: "(thrown \<Rightarrow> string) \<Rightarrow> popup \<Rightarrow> event list \<Rightarrow> popup" where
  "run message s evs = foldl (step message) s evs"

text \<open>The fetches that have not been answered yet.\<close>

fun is_fetch :: "pending_op \<Rightarrow> bool" where
  "is_fetch (AskFetch t) = True"
| "is_fetch ProcFetch = True"
| "is_fetch TabsQuery = False"
| "is_fetch ScriptExec = False"

definition in_flight :: "popup \<Rightarrow> nat" where
  "in_flight s = length (filter is_fetch (pending s))"

text \<open>
  A popup just opened, before \<open>load_theme\<close>: the history is empty (line 1 of popup.js),
  nothing is pending and nothing was sent. popup.html is not among the sources; the
  elements are given the state of a page on which nothing has been processed yet.
\<close>

definition opened :: popup where
  "opened = \<lparr>chatHistory = [], chatWindow = [EmptyState], fresh = 0,
             statusClass = ''status-badge idle'', statusText = ''Ready'',
             askDisabled = True, inputDisabled = True, inputValue = [],
             processDisabled = False, processLoading = False, quickDisplay = ''none'',
             dataTheme = None, storedTheme = None, themeIcon = moon_icon,
             pending = [], sent = []\<rparr>"

subsection \<open>Predicates of the properties\<close>

text \<open>
  The record of the data model in the spec's words: \<open>{role: "human"|"ai", content: string}\<close>.
\<close>

fun spec_record :: "jsval \<Rightarrow> bool" where
  "spec_record (JObj fs) =
     (map fst fs = [''role'', ''content''] \<and>
      (map_of fs ''role'' = Some (JStr ''human'') \<or> map_of fs ''role'' = Some (JStr ''ai'')) \<and>
      (case map_of fs ''content'' of None \<Rightarrow> False | Some c \<Rightarrow> is_str c))"
| "spec_record v = False"

text \<open>
  The record as \<open>sendQuestion\<close> builds it: the fields \<open>type\<close> and \<open>content\<close>, the first
  naming the speaker, the second a string.
\<close>

fun record_shape :: "jsval \<Rightarrow> bool" where
  "record_shape (JObj fs) =
     (map fst fs = [''type'', ''content''] \<and>
      (map_of fs ''type'' = Some (JStr ''human'') \<or> map_of fs ''type'' = Some (JStr ''ai'')) \<and>
      (case map_of fs ''content'' of None \<Rightarrow> False | Some c \<Rightarrow> is_str c))"
| "record_shape v = False"

text \<open>
  The requests of the interface section, written out: a POST of a JSON object to a path
  under the fixed base. The request of a question carries the question and the history
  with the record of that question at its end.
\<close>

definition json_post :: "string \<Rightarrow> fields \<Rightarrow> request" where
  "json_post path fs =
     \<lparr>url = ''http://127.0.0.1:5000'' @ path, method = ''POST'',
      headers = [(''Content-Type'', ''application/json'')], body = JObj fs\<rparr>"

definition ask_request :: "string \<Rightarrow> jsval list \<Rightarrow> request" where
  "ask_request q h =
     json_post ''/ask''
       [(''question'', JStr q),
        (''history'', JArr (h @ [JObj [(''type'', JStr ''human''), (''content'', JStr q)]]))]"

text \<open>The one request that an event can lead to in a state, if any.\<close>

fun expected :: "popup \<Rightarrow> event \<Rightarrow> request option" where
  "expected s AskClick = Some (ask_request (trim (inputValue s)) (chatHistory s))"
| "expected s (KeyPress k) = Some (ask_request (trim (inputValue s)) (chatHistory s))"
| "expected s (QuickPromptClick (Some p)) = Some (ask_request p (chatHistory s))"
| "expected s (TabsResult (Some u) v) =
     (if endsWith u ''.pdf'' then Some (json_post ''/process_pdf'' [(''pdf_url'', JStr u)])
      else case v of
             None \<Rightarrow> None
           | Some i \<Rightarrow> Some (json_post ''/process_youtube'' [(''videoId'', JStr i)]))"
| "expected s (ScriptResult (Some c)) =
     Some (json_post ''/process_webpage'' [(''content'', JStr c)])"
| "expected s e = None"

text \<open>
  A request to one of the four endpoints: POST with the JSON content type, the body an
  object with the fields of the endpoint, their values strings (not empty for a question
  and a video), the history an array that ends with the record of the question.
\<close>

fun body_fields :: "jsval \<Rightarrow> fields option" where
  "body_fields (JObj fs) = Some fs"
| "body_fields v = None"

definition endpoint_ok :: "request \<Rightarrow> bool" where
  "endpoint_ok r =
     (method r = ''POST'' \<and> headers r = [(''Content-Type'', ''application/json'')] \<and>
      (case body_fields (body r) of
         None \<Rightarrow> False
       | Some fs \<Rightarrow>
           (url r = ''http://127.0.0.1:5000/ask'' \<and>
            map fst fs = [''question'', ''history''] \<and>
            is_str (property fs ''question'') \<and> truthy (property fs ''question'') \<and>
            (case property fs ''history'' of
               JArr h \<Rightarrow> h \<noteq> [] \<and> last h = human_record (property fs ''question'')
             | v \<Rightarrow> False))
           \<or> (url r = ''http://127.0.0.1:5000/process_pdf'' \<and>
               map fst fs = [''pdf_url''] \<and> is_str (property fs ''pdf_url''))
           \<or> (url r = ''http://127.0.0.1:5000/process_youtube'' \<and>
               map fst fs = [''videoId''] \<and>
               is_str (property fs ''videoId'') \<and> truthy (property fs ''videoId''))
           \<or> (url r = ''http://127.0.0.1:5000/process_webpage'' \<and>
               map fst fs = [''content''] \<and> is_str (property fs ''content''))))"

text \<open>
  The theme: the two values, the switch between them, and what holds of the attribute
  and of the stored entry once the theme is loaded (nothing is stored before the first
  toggle of a popup that found nothing stored, and the theme is light then).
\<close>

definition is_theme :: "string \<Rightarrow> bool" where
  "is_theme t = (t = ''light'' \<or> t = ''dark'')"

definition other_theme :: "string \<Rightarrow> string" where
  "other_theme t = (if t = ''light'' then ''dark'' else ''light'')"

definition theme_inv :: "popup \<Rightarrow> bool" where
  "theme_inv s =
     (case dataTheme s of
        None \<Rightarrow> False
      | Some t \<Rightarrow>
          is_theme t \<and> (storedTheme s = Some t \<or> (storedTheme s = None \<and> t = ''light'')))"

text \<open>
  A failure with message \<open>msg\<close> is surfaced: the last message of the chat window is the
  AI message of the error, the status badge shows the error when \<open>badge\<close> is set and is
  what it was otherwise, no request was made, and the operation \<open>p\<close> is no longer pending
  and nothing else is.
\<close>

definition shows_error :: "string \<Rightarrow> popup \<Rightarrow> bool" where
  "shows_error msg s =
     (chatWindow s \<noteq> [] \<and>
      (case last (chatWindow s) of
         EmptyState \<Rightarrow> False
       | MessageDiv i c x \<Rightarrow>
           c = ''message ai-message'' \<and> x = Markdown (JStr (cross_mark @ '' Error: '' @ msg))))"



text \<open>
  The message that ends up shown for an error reported by the backend: the string form of
  \<open>data.error\<close>. When it has none, the TypeError is caught and it is the message of that
  error, after the words of \<open>fetchAndProcess\<close> in a processing.
\<close>

definition ask_error_text :: "(thrown \<Rightarrow> string) \<Rightarrow> jsval \<Rightarrow> string" where
  "ask_error_text message v =
     (case js_string v of None \<Rightarrow> message NotPrimitive | Some m \<Rightarrow> m)"

definition proc_error_text :: "(thrown \<Rightarrow> string) \<Rightarrow> jsval \<Rightarrow> string" where
  "proc_error_text message v =
     (case js_string v of
        None \<Rightarrow> ''Cannot connect to backend server. '' @ message NotPrimitive
      | Some m \<Rightarrow> m)"

text \<open>
  Examples. \<open>messages\<close> gives the thrown errors the messages of one browser and one
  version of the library. In the run \<open>asked\<close> a PDF is processed and a quick prompt is
  clicked, whose request is pending at the end, its "Thinking..." element being number 4.
  In \<open>typed\<close> the user types a question between a no-break space and spaces.
\<close>

fun messages :: "thrown \<Rightarrow> string" where
  "messages NotPrimitive = ''Cannot convert object to primitive value''"
| "messages (MarkedInput text) = ''marked(): input parameter is undefined or null''"

definition pdf_tab :: event where
  "pdf_tab = TabsResult (Some ''https://example.org/a.pdf'') None"

definition processed :: "event list" where
  "processed = [ProcessClick, pdf_tab, ProcResolved []]"

definition asked :: "event list" where
  "asked = processed @ [QuickPromptClick (Some ''Summarize'')]"

definition typed :: "event list" where
  "typed = processed @ [TypeText ([CHR 0xC2, CHR 0xA0] @ '' Hi '')]"

definition web_tab :: event where
  "web_tab = TabsResult (Some ''https://example.org/'') None"

definition all_endpoints :: "event list" where
  "all_endpoints =
     asked @
     [AskResolved 4 [(''answer'', JStr ''A summary.'')],
      ProcessClick, TabsResult (Some ''https://www.youtube.com/watch?v=abc'') (Some ''abc''),
      ProcRejected ''Failed to fetch'',
      ProcessClick, TabsResult (Some ''https://example.org/'') None,
      ScriptResult (Some ''<html></html>'')]"

section \<open>Properties\<close>

subsection \<open>Runs\<close>

lemma run_Nil: "run M s [] = s"
  by (simp add: run_def)

lemma run_snoc: "run M s (evs @ [e]) = step M (run M s evs) e"
  by (simp add: run_def)

subsection \<open>Adding a message\<close>

lemma addMessageToChat_user:
  "addMessageToChat ''user'' text s =
     (Inr (fresh s),
      s\<lparr>chatWindow := remove1 EmptyState (chatWindow s) @
            [MessageDiv (fresh s) ''message user-message'' (TextContent text)],
        fresh := Suc (fresh s)\<rparr>)"
  by (simp add: addMessageToChat_def Let_def)

lemma addMessageToChat_string:
  "addMessageToChat ''ai'' (JStr t) s =
     (Inr (fresh s),
      s\<lparr>chatWindow := remove1 EmptyState (chatWindow s) @
            [MessageDiv (fresh s) ''message ai-message''
               (if t = ''Thinking...'' then TypingIndicator else Markdown (JStr t))],
        fresh := Suc (fresh s)\<rparr>)"
  by (simp add: addMessageToChat_def marked_parse_def Let_def)

lemma addMessageToChat_throws:
  "\<not> is_str text \<Longrightarrow>
   addMessageToChat ''ai'' text s =
     (Inl (MarkedInput text),
      s\<lparr>chatWindow := remove1 EmptyState (chatWindow s), fresh := Suc (fresh s)\<rparr>)"
  by (auto simp add: addMessageToChat_def marked_parse_def Let_def)

lemma is_str_JStr: "is_str v \<Longrightarrow> \<exists>t. v = JStr t"
  by (cases v) simp_all

subsection \<open>What each handler does to the chat history\<close>

lemma sendQuestion_falsy: "\<not> truthy q \<Longrightarrow> sendQuestion q s = s"
  by (simp add: sendQuestion_def)

lemma sendQuestion_history:
  "truthy q \<Longrightarrow> chatHistory (sendQuestion q s) = chatHistory s @ [human_record q]"
  by (simp add: sendQuestion_def addMessageToChat_user addMessageToChat_string Let_def)

lemma sendQuestion_JStr_history:
  "chatHistory (sendQuestion (JStr q) s) =
     (if q = [] then chatHistory s else chatHistory s @ [human_record (JStr q)])"
  by (simp add: sendQuestion_history sendQuestion_falsy)

lemma sendQuestion_pending:
  "truthy q \<Longrightarrow> pending (sendQuestion q s) = pending s @ [AskFetch (Suc (fresh s))]"
  by (simp add: sendQuestion_def addMessageToChat_user addMessageToChat_string Let_def)

lemma ask_catch_history: "chatHistory (ask_catch t msg s) = chatHistory s"
  by (simp add: ask_catch_def addMessageToChat_string remove_node_def ask_finally_def Let_def)

lemma ask_data_history:
  "chatHistory (snd (ask_data t data s)) =
     (if \<not> truthy (property data ''error'') \<and> is_str (property data ''answer'')
      then chatHistory s @ [ai_record (property data ''answer'')]
      else chatHistory s)"
proof (cases "truthy (property data ''error'')")
  case True
  then show ?thesis
    by (simp add: ask_data_def addMessageToChat_string remove_node_def Let_def
        split: option.splits)
next
  case False
  show ?thesis
  proof (cases "is_str (property data ''answer'')")
    case True
    then obtain a where "property data ''answer'' = JStr a" using is_str_JStr by blast
    with False show ?thesis
      by (simp add: ask_data_def addMessageToChat_string remove_node_def Let_def)
  next
    case n: False
    with False show ?thesis
      by (simp add: ask_data_def addMessageToChat_throws remove_node_def Let_def)
  qed
qed

lemma ask_then_history:
  "chatHistory (ask_then M t data s) =
     (if \<not> truthy (property data ''error'') \<and> is_str (property data ''answer'')
      then chatHistory s @ [ai_record (property data ''answer'')]
      else chatHistory s)"
proof -
  have "chatHistory (ask_then M t data s) = chatHistory (snd (ask_data t data s))"
    by (cases "ask_data t data s")
       (auto simp add: ask_then_def ask_finally_def ask_catch_history split: option.splits)
  then show ?thesis by (simp only: ask_data_history)
qed

lemma settle_history: "chatHistory (settle p s) = chatHistory s"
  by (simp add: settle_def)

lemma showError_history: "chatHistory (snd (showError v s)) = chatHistory s"
  by (simp add: showError_def updateStatus_def addMessageToChat_string Let_def
      split: option.splits)

lemma proc_then_history: "chatHistory (proc_then M data s) = chatHistory s"
proof -
  have a: "chatHistory (snd (proc_data data s)) = chatHistory s"
    by (simp add: proc_data_def showError_history updateStatus_def addMessageToChat_string
        Let_def)
  have b: "chatHistory (proc_catch msg s') = chatHistory s'" for msg s'
    by (simp add: proc_catch_def proc_finally_def showError_history)
  show ?thesis
    using a
    by (cases "proc_data data s")
       (auto simp add: proc_then_def proc_finally_def b split: option.splits)
qed

lemma step_history_strong:
  "chatHistory (step M s e) = chatHistory s
   \<or> (\<exists>q. (e = AskClick \<or> (\<exists>k. e = KeyPress k) \<or> (\<exists>a. e = QuickPromptClick a)) \<and> q \<noteq> [] \<and>
          chatHistory (step M s e) = chatHistory s @ [human_record (JStr q)])
   \<or> (\<exists>t data a. e = AskResolved t data \<and> \<not> truthy (property data ''error'') \<and>
          property data ''answer'' = JStr a \<and>
          chatHistory (step M s e) = chatHistory s @ [ai_record (JStr a)])
   \<or> (e = ProcessClick \<and> chatHistory (step M s e) = [])"
proof (cases e)
  case AskClick
  then show ?thesis
    by (auto simp add: askButton_dot_click_def askButton_click_def sendQuestion_JStr_history)
next
  case (KeyPress k)
  then show ?thesis
    by (auto simp add: questionInput_keypress_def askButton_dot_click_def askButton_click_def
        sendQuestion_JStr_history)
next
  case (TypeText t)
  then show ?thesis by simp
next
  case (QuickPromptClick a)
  then show ?thesis
    by (cases a) (auto simp add: quickPrompt_click_def sendQuestion_JStr_history sendQuestion_falsy)
next
  case ProcessClick
  then show ?thesis
    by (simp add: processButton_click_def addMessageToChat_string updateStatus_def Let_def)
next
  case ThemeToggle
  then show ?thesis by (simp add: themeToggle_click_def updateThemeIcon_def Let_def)
next
  case (AskResolved t data)
  then show ?thesis
    by (auto simp add: ask_then_history settle_history dest: is_str_JStr)
next
  case (AskRejected t msg)
  then show ?thesis by (simp add: ask_catch_history settle_history)
next
  case (TabsResult u v)
  then show ?thesis
    by (simp add: tabs_callback_def fetchAndProcess_def showError_history
        addMessageToChat_string settle_def Let_def split: option.splits)
next
  case (ScriptResult r)
  then show ?thesis
    by (simp add: script_callback_def fetchAndProcess_def showError_history settle_def
        split: option.splits)
next
  case (ProcResolved data)
  then show ?thesis by (simp add: proc_then_history settle_history)
next
  case (ProcRejected msg)
  then show ?thesis
    by (simp add: proc_catch_def proc_finally_def showError_history settle_history)
qed

lemma step_history_cases:
  "chatHistory (step M s e) = chatHistory s
   \<or> (\<exists>q. (e = AskClick \<or> (\<exists>k. e = KeyPress k) \<or> (\<exists>a. e = QuickPromptClick a)) \<and> q \<noteq> [] \<and>
          chatHistory (step M s e) = chatHistory s @ [human_record (JStr q)])
   \<or> (\<exists>t data. e = AskResolved t data \<and> \<not> truthy (property data ''error'') \<and>
          chatHistory (step M s e) = chatHistory s @ [ai_record (property data ''answer'')])
   \<or> (e = ProcessClick \<and> chatHistory (step M s e) = [])"
  using step_history_strong [of M s e] by metis

lemma run_history_prefix:
  "prefix (chatHistory s) (chatHistory (run M s evs)) \<or> ProcessClick \<in> set evs"
proof (induction evs rule: rev_induct)
  case Nil
  then show ?case by (simp add: run_Nil)
next
  case (snoc e evs)
  show ?case
  proof (cases "ProcessClick \<in> set (evs @ [e])")
    case True
    then show ?thesis by simp
  next
    case False
    then have p: "prefix (chatHistory s) (chatHistory (run M s evs))" and ne: "e \<noteq> ProcessClick"
      using snoc by auto
    from step_history_cases [of M "run M s evs" e] ne
    have "prefix (chatHistory (run M s evs)) (chatHistory (step M (run M s evs) e))"
      by auto
    with p show ?thesis by (auto simp: run_snoc)
  qed
qed

subsection \<open>A question that is answered\<close>

text \<open>
  C1, as amended. A question \<open>q\<close> that is not empty is sent from any state \<open>s\<close>, and the
  backend answers the request with a JSON object that has no field \<open>error\<close>. The send
  appends the human record of \<open>q\<close> to the history. When the answer carries a string as
  its \<open>answer\<close>, the callback appends the AI record of that string: the history is then
  the history of \<open>s\<close> followed by the human record and the AI record, in this order. When
  it carries no string there, rendering the answer throws before the push and the
  history stays at the human record.
\<close>

theorem send_success_appends_human_then_ai:
  assumes "q \<noteq> []" and "map_of data ''error'' = None"
    and "s1 = sendQuestion (JStr q) s"
    and "s2 = step M s1 (AskResolved (Suc (fresh s)) data)"
  shows "chatHistory s1 = chatHistory s @ [human_record (JStr q)] \<and>
         chatHistory s2 =
           chatHistory s @ [human_record (JStr q)] @
             (if is_str (property data ''answer'') then [ai_record (property data ''answer'')]
              else [])"
proof -
  have q: "truthy (JStr q)" using assms(1) by simp
  have e: "\<not> truthy (property data ''error'')" using assms(2) by (simp add: property_def)
  have h1: "chatHistory s1 = chatHistory s @ [human_record (JStr q)]"
    using q assms(3) by (simp add: sendQuestion_history)
  have p: "AskFetch (Suc (fresh s)) \<in> set (pending s1)"
    using q assms(3) by (simp add: sendQuestion_pending)
  have "chatHistory s2 =
          chatHistory s1 @
            (if is_str (property data ''answer'') then [ai_record (property data ''answer'')]
             else [])"
    using p e assms(4) by (simp add: ask_then_history settle_history)
  with h1 show ?thesis by simp
qed

theorem send_success_appends_human_then_ai_witness:
  "''Hi'' \<noteq> [] \<and> map_of [(''answer'', JStr ''Hello'')] ''error'' = None \<and>
   is_str (property [(''answer'', JStr ''Hello'')] ''answer'') \<and>
   chatHistory (sendQuestion (JStr ''Hi'') opened) =
     [JObj [(''type'', JStr ''human''), (''content'', JStr ''Hi'')]] \<and>
   chatHistory (step messages (sendQuestion (JStr ''Hi'') opened)
       (AskResolved (Suc (fresh opened)) [(''answer'', JStr ''Hello'')])) =
     [JObj [(''type'', JStr ''human''), (''content'', JStr ''Hi'')],
      JObj [(''type'', JStr ''ai''), (''content'', JStr ''Hello'')]]"
  using send_success_appends_human_then_ai
    [of "''Hi''" "[(''answer'', JStr ''Hello'')]" "sendQuestion (JStr ''Hi'') opened" opened
      "step messages (sendQuestion (JStr ''Hi'') opened)
         (AskResolved (Suc (fresh opened)) [(''answer'', JStr ''Hello'')])" messages]
  by (simp add: human_record_def ai_record_def property_def opened_def)

text \<open>
  The claim as the spec words it fails on the answer \<open>{}\<close>, which has no field \<open>error\<close>:
  no AI record is appended, and the chat shows the error that rendering threw.
\<close>

theorem send_success_counterexample:
  "map_of ([] :: fields) ''error'' = None \<and>
   chatHistory (step messages (sendQuestion (JStr ''Hi'') opened) (AskResolved 1 [])) =
     [JObj [(''type'', JStr ''human''), (''content'', JStr ''Hi'')]] \<and>
   chatHistory (step messages (sendQuestion (JStr ''Hi'') opened) (AskResolved 1 [])) \<noteq>
     chatHistory opened @ [human_record (JStr ''Hi''), ai_record (property [] ''answer'')] \<and>
   shows_error ''marked(): input parameter is undefined or null''
     (step messages (sendQuestion (JStr ''Hi'') opened) (AskResolved 1 []))"
  by code_simp

subsection \<open>The shape of the records\<close>

lemma step_record_shape:
  assumes "list_all record_shape (chatHistory s)"
  shows "list_all record_shape (chatHistory (step M s e))"
  using step_history_strong [of M s e] assms
  by (auto simp: human_record_def ai_record_def)

lemma run_record_shape:
  "list_all record_shape (chatHistory s) \<Longrightarrow> list_all record_shape (chatHistory (run M s evs))"
  by (induction evs rule: rev_induct) (simp_all add: run_Nil run_snoc step_record_shape)

text \<open>
  C2, as amended. The field that names the speaker is called \<open>type\<close>, not \<open>role\<close>: every
  record of the history is an object of the two fields \<open>type\<close> and \<open>content\<close>, with
  \<open>type\<close> either \<open>"human"\<close> or \<open>"ai"\<close> and \<open>content\<close> a string, in every run from a history
  of such records (the empty one, when the popup opens).
\<close>

theorem history_records_shape:
  assumes "list_all record_shape (chatHistory s)"
  shows "list_all record_shape (chatHistory (run M s evs))"
  using assms by (rule run_record_shape)

theorem history_records_shape_witness:
  "list_all record_shape (chatHistory opened) \<and>
   list_all record_shape
     (chatHistory (run messages opened
        (asked @ [AskResolved 4 [(''answer'', JStr ''A summary.'')]]))) \<and>
   chatHistory (run messages opened (asked @ [AskResolved 4 [(''answer'', JStr ''A summary.'')]])) =
     [JObj [(''type'', JStr ''human''), (''content'', JStr ''Summarize'')],
      JObj [(''type'', JStr ''ai''), (''content'', JStr ''A summary.'')]]"
proof -
  have a: "list_all record_shape (chatHistory opened)" by (simp add: opened_def)
  have c: "chatHistory (run messages opened
             (asked @ [AskResolved 4 [(''answer'', JStr ''A summary.'')]])) =
     [JObj [(''type'', JStr ''human''), (''content'', JStr ''Summarize'')],
      JObj [(''type'', JStr ''ai''), (''content'', JStr ''A summary.'')]]"
    by code_simp
  show ?thesis
    using a c
      history_records_shape [OF a, of messages
        "asked @ [AskResolved 4 [(''answer'', JStr ''A summary.'')]]"]
    by simp
qed

text \<open>
  The claim as the spec words it fails on the first question: the record that
  \<open>sendQuestion\<close> appends has no field \<open>role\<close>.
\<close>

theorem history_records_role_counterexample:
  "\<not> list_all spec_record (chatHistory (run messages opened asked)) \<and>
   chatHistory (run messages opened asked) =
     [JObj [(''type'', JStr ''human''), (''content'', JStr ''Summarize'')]]"
  by code_simp

subsection \<open>The callbacks of a fetch, case by case\<close>

lemma remove_node_twice: "remove_node t (remove_node t s) = remove_node t s"
  by (simp add: remove_node_def)

lemma js_string_None_not_str: "js_string v = None \<Longrightarrow> \<not> is_str v"
  by (cases v) simp_all

lemma ask_then_error:
  assumes "truthy (property data ''error'')"
  shows "ask_then M t data s = ask_catch t (ask_error_text M (property data ''error'')) s"
proof (cases "js_string (property data ''error'')")
  case None
  with assms show ?thesis
    by (simp add: ask_then_def ask_data_def ask_error_text_def ask_catch_def remove_node_twice
        Let_def)
next
  case (Some m)
  with assms show ?thesis
    by (simp add: ask_then_def ask_data_def ask_error_text_def ask_catch_def
        addMessageToChat_string Let_def)
qed

lemma ask_then_answer:
  assumes "\<not> truthy (property data ''error'')" and "property data ''answer'' = JStr a"
  shows "ask_then M t data s =
           ask_finally
             ((snd (addMessageToChat ''ai'' (JStr a) (remove_node t s)))
                \<lparr>chatHistory := chatHistory s @ [ai_record (JStr a)]\<rparr>)"
  using assms
  by (simp add: ask_then_def ask_data_def addMessageToChat_string remove_node_def Let_def)

lemma ask_then_throws:
  assumes "\<not> truthy (property data ''error'')" and "\<not> is_str (property data ''answer'')"
  shows "ask_then M t data s =
           ask_catch t (M (MarkedInput (property data ''answer'')))
             ((remove_node t s)
                \<lparr>chatWindow := remove1 EmptyState (chatWindow (remove_node t s)),
                  fresh := Suc (fresh s)\<rparr>)"
  using assms
  by (simp add: ask_then_def ask_data_def addMessageToChat_throws remove_node_def Let_def)

lemma showError_string:
  "showError (JStr m) s =
     (None,
      (snd (addMessageToChat ''ai'' (JStr (cross_mark @ '' Error: '' @ m))
         (updateStatus ''error'' (''Error: '' @ m) s)))
        \<lparr>processDisabled := False, processLoading := False\<rparr>)"
  by (simp add: showError_def Let_def)

lemma proc_then_error:
  assumes "truthy (property data ''error'')"
  shows "proc_then M data s =
           proc_finally (snd (showError (JStr (proc_error_text M (property data ''error''))) s))"
proof (cases "js_string (property data ''error'')")
  case None
  with assms show ?thesis
    by (simp add: proc_then_def proc_data_def proc_error_text_def proc_catch_def showError_def)
next
  case (Some m)
  with assms show ?thesis
    by (simp add: proc_then_def proc_data_def proc_error_text_def showError_def)
qed

lemma proc_then_ready:
  assumes "\<not> truthy (property data ''error'')"
  shows "proc_then M data s =
           proc_finally
             (snd (addMessageToChat ''ai''
                (JStr (check_mark @ '' I've finished reading. What would you like to know?''))
                ((updateStatus ''ready'' ''Ready to answer questions!'' s)
                   \<lparr>askDisabled := False, inputDisabled := False, quickDisplay := ''flex'',
                     chatWindow := []\<rparr>)))"
  using assms by (simp add: proc_then_def proc_data_def Let_def)

subsection \<open>Failures\<close>













subsection \<open>The controls around a request\<close>

lemma sendQuestion_controls:
  "truthy q \<Longrightarrow>
   askDisabled (sendQuestion q s) \<and> inputDisabled (sendQuestion q s) \<and>
   processDisabled (sendQuestion q s) = processDisabled s"
  by (simp add: sendQuestion_def addMessageToChat_user addMessageToChat_string Let_def)

lemma ask_catch_controls:
  "\<not> askDisabled (ask_catch t msg s) \<and> \<not> inputDisabled (ask_catch t msg s) \<and>
   processDisabled (ask_catch t msg s) = processDisabled s"
  by (simp add: ask_catch_def ask_finally_def remove_node_def addMessageToChat_string Let_def)

lemma ask_then_controls:
  "\<not> askDisabled (ask_then M t data s) \<and> \<not> inputDisabled (ask_then M t data s) \<and>
   processDisabled (ask_then M t data s) = processDisabled s"
proof (cases "truthy (property data ''error'')")
  case True
  then show ?thesis by (simp add: ask_then_error ask_catch_controls)
next
  case False
  show ?thesis
  proof (cases "is_str (property data ''answer'')")
    case True
    then obtain a where "property data ''answer'' = JStr a" using is_str_JStr by blast
    with False show ?thesis
      by (simp add: ask_then_answer ask_finally_def addMessageToChat_string remove_node_def)
  next
    case n: False
    with False show ?thesis
      by (simp add: ask_then_throws ask_catch_controls remove_node_def)
  qed
qed

lemma process_click_controls:
  "askDisabled (processButton_click s) \<and> inputDisabled (processButton_click s) \<and>
   processDisabled (processButton_click s)"
  by (simp add: processButton_click_def updateStatus_def addMessageToChat_string Let_def)

lemma tabs_callback_controls:
  "askDisabled (tabs_callback u v s) = askDisabled s \<and>
   inputDisabled (tabs_callback u v s) = inputDisabled s \<and>
   (sent (tabs_callback u v s) \<noteq> sent s \<or> pending (tabs_callback u v s) \<noteq> pending s \<longrightarrow>
      processDisabled (tabs_callback u v s) = processDisabled s)"
  by (simp add: tabs_callback_def fetchAndProcess_def showError_string updateStatus_def
      addMessageToChat_string Let_def split: option.splits)

lemma script_callback_controls:
  "askDisabled (script_callback r s) = askDisabled s \<and>
   inputDisabled (script_callback r s) = inputDisabled s \<and>
   (sent (script_callback r s) \<noteq> sent s \<longrightarrow>
      processDisabled (script_callback r s) = processDisabled s)"
  by (simp add: script_callback_def fetchAndProcess_def showError_string updateStatus_def
      addMessageToChat_string Let_def split: option.splits)

lemma proc_catch_controls:
  "\<not> processDisabled (proc_catch msg s) \<and>
   askDisabled (proc_catch msg s) = askDisabled s \<and>
   inputDisabled (proc_catch msg s) = inputDisabled s"
  by (simp add: proc_catch_def proc_finally_def showError_string updateStatus_def
      addMessageToChat_string Let_def)

lemma proc_then_controls:
  "\<not> processDisabled (proc_then M data s) \<and>
   (if truthy (property data ''error'')
    then askDisabled (proc_then M data s) = askDisabled s \<and>
         inputDisabled (proc_then M data s) = inputDisabled s
    else \<not> askDisabled (proc_then M data s) \<and> \<not> inputDisabled (proc_then M data s))"
proof (cases "truthy (property data ''error'')")
  case True
  then show ?thesis
    by (simp add: proc_then_error proc_finally_def showError_string updateStatus_def
        addMessageToChat_string Let_def)
next
  case False
  then show ?thesis
    by (simp add: proc_then_ready proc_finally_def updateStatus_def addMessageToChat_string
        Let_def)
qed

text \<open>
  C4, as amended. Sending a question disables the ask button and the question input and
  leaves the process button as it is; the callback of its request, on an answer as on a
  rejection, enables the two again and leaves the process button as it is. A click of the
  process button disables the three controls. The callbacks of the tab query and of the
  script leave the ask button and the input as they are, and the process button too when
  they go on to a request or to the script. When the request of the processing completes
  the process button is enabled again; the ask button and the input are enabled when the
  backend reported no error, and are left as they are when it reported one or when the
  fetch was rejected.
\<close>

theorem controls_around_requests:
  "(truthy q \<longrightarrow>
      askDisabled (sendQuestion q s) \<and> inputDisabled (sendQuestion q s) \<and>
      processDisabled (sendQuestion q s) = processDisabled s) \<and>
   (\<not> askDisabled (ask_then M t data s) \<and> \<not> inputDisabled (ask_then M t data s) \<and>
    processDisabled (ask_then M t data s) = processDisabled s) \<and>
   (\<not> askDisabled (ask_catch t msg s) \<and> \<not> inputDisabled (ask_catch t msg s) \<and>
    processDisabled (ask_catch t msg s) = processDisabled s) \<and>
   (askDisabled (processButton_click s) \<and> inputDisabled (processButton_click s) \<and>
    processDisabled (processButton_click s)) \<and>
   (askDisabled (tabs_callback u v s) = askDisabled s \<and>
    inputDisabled (tabs_callback u v s) = inputDisabled s \<and>
    (sent (tabs_callback u v s) \<noteq> sent s \<or> pending (tabs_callback u v s) \<noteq> pending s \<longrightarrow>
       processDisabled (tabs_callback u v s) = processDisabled s)) \<and>
   (askDisabled (script_callback r s) = askDisabled s \<and>
    inputDisabled (script_callback r s) = inputDisabled s \<and>
    (sent (script_callback r s) \<noteq> sent s \<longrightarrow>
       processDisabled (script_callback r s) = processDisabled s)) \<and>
   (\<not> processDisabled (proc_then M data s) \<and>
    (if truthy (property data ''error'')
     then askDisabled (proc_then M data s) = askDisabled s \<and>
          inputDisabled (proc_then M data s) = inputDisabled s
     else \<not> askDisabled (proc_then M data s) \<and> \<not> inputDisabled (proc_then M data s))) \<and>
   (\<not> processDisabled (proc_catch msg s) \<and>
    askDisabled (proc_catch msg s) = askDisabled s \<and>
    inputDisabled (proc_catch msg s) = inputDisabled s)"
  using sendQuestion_controls [of q s] ask_then_controls [of M t data s]
    ask_catch_controls [of t msg s]
    process_click_controls [of s] tabs_callback_controls [of u v s]
    script_callback_controls [of r s] proc_then_controls [of M data s]
    proc_catch_controls [of msg s]
  by presburger

text \<open>
  In the state after a click of the process button: a question is sent, the tab turns out
  to be a PDF, and the script returns the page.
\<close>

theorem controls_around_requests_witness:
  "truthy (JStr ''Hi'') \<and>
   askDisabled (sendQuestion (JStr ''Hi'') (run messages opened [ProcessClick])) \<and>
   inputDisabled (sendQuestion (JStr ''Hi'') (run messages opened [ProcessClick])) \<and>
   processDisabled (sendQuestion (JStr ''Hi'') (run messages opened [ProcessClick])) \<and>
   sent (tabs_callback (Some ''https://example.org/a.pdf'') None
          (run messages opened [ProcessClick])) \<noteq>
     sent (run messages opened [ProcessClick]) \<and>
   processDisabled
     (tabs_callback (Some ''https://example.org/a.pdf'') None
        (run messages opened [ProcessClick])) \<and>
   sent (script_callback (Some ''<html></html>'') (run messages opened [ProcessClick])) \<noteq>
     sent (run messages opened [ProcessClick]) \<and>
   processDisabled (script_callback (Some ''<html></html>'') (run messages opened [ProcessClick])) \<and>
   \<not> truthy (property [] ''error'') \<and>
   \<not> askDisabled (proc_then messages [] (run messages opened [ProcessClick])) \<and>
   \<not> inputDisabled (proc_then messages [] (run messages opened [ProcessClick])) \<and>
   \<not> processDisabled (proc_then messages [] (run messages opened [ProcessClick])) \<and>
   askDisabled (proc_catch ''Failed to fetch'' (run messages opened [ProcessClick])) \<and>
   \<not> processDisabled (proc_catch ''Failed to fetch'' (run messages opened [ProcessClick]))"
proof -
  have a: "truthy (JStr ''Hi'')" by simp
  have b: "processDisabled (run messages opened [ProcessClick])" by code_simp
  have c: "sent (tabs_callback (Some ''https://example.org/a.pdf'') None
             (run messages opened [ProcessClick])) \<noteq> sent (run messages opened [ProcessClick])"
    by code_simp
  have d: "sent (script_callback (Some ''<html></html>'') (run messages opened [ProcessClick])) \<noteq>
             sent (run messages opened [ProcessClick])"
    by code_simp
  have e: "\<not> truthy (property [] ''error'')" by (simp add: property_def)
  have f: "askDisabled (run messages opened [ProcessClick])" by code_simp
  show ?thesis
    using a b c d e f
      controls_around_requests [of "JStr ''Hi''" "run messages opened [ProcessClick]" messages _
        "[]" "''Failed to fetch''" "Some ''https://example.org/a.pdf''" None
        "Some ''<html></html>''"]
    by simp
qed

text \<open>
  The claim as the spec words it fails twice. While the request of a question is pending
  the process button is enabled; and after a second processing whose fetch is rejected
  no request is pending and the ask button and the input, enabled before the click, are
  still disabled.
\<close>

theorem controls_counterexample:
  "in_flight (run messages opened asked) = 1 \<and>
   \<not> processDisabled (run messages opened asked) \<and>
   \<not> askDisabled (run messages opened processed) \<and>
   \<not> inputDisabled (run messages opened processed) \<and>
   in_flight (run messages opened
     (processed @ [ProcessClick, pdf_tab, ProcRejected ''Failed to fetch''])) = 0 \<and>
   askDisabled (run messages opened
     (processed @ [ProcessClick, pdf_tab, ProcRejected ''Failed to fetch''])) \<and>
   inputDisabled (run messages opened
     (processed @ [ProcessClick, pdf_tab, ProcRejected ''Failed to fetch'']))"
  by code_simp

subsection \<open>Requests in flight\<close>

text \<open>
  C5. The claim is that no sequence of user events starts a second request while one is
  pending. The Enter key is guarded by the state of the ask button and a disabled ask
  button gives no click, but the quick prompts call \<open>sendQuestion\<close> unguarded: after a
  PDF is processed, two clicks on quick prompts leave two requests to \<open>/ask\<close> in flight.
\<close>

theorem quick_prompts_two_in_flight:
  "in_flight (run messages opened asked) = 1 \<and>
   in_flight (run messages opened (asked @ [QuickPromptClick (Some ''Key points'')])) = 2 \<and>
   map url (sent (run messages opened (asked @ [QuickPromptClick (Some ''Key points'')]))) =
     [''http://127.0.0.1:5000/process_pdf'', ''http://127.0.0.1:5000/ask'',
      ''http://127.0.0.1:5000/ask''] \<and>
   step messages (run messages opened asked) AskClick = run messages opened asked \<and>
   step messages (run messages opened asked) (KeyPress ''Enter'') = run messages opened asked"
  by code_simp

subsection \<open>How the history changes\<close>

text \<open>
  C6. Whatever the state and the event, the handler that runs leaves the history as it
  is, or appends one record to it (the human record of a question that is not empty, on
  an ask click, a key press or a quick prompt; the AI record of the answer, when the
  request of a question is answered without an error), or empties it (on a click of the
  process button). In a run without a click of the process button the history at the
  start is therefore a prefix of the history at the end: no record in it is changed or
  removed.
\<close>

theorem history_appended_or_cleared:
  "(chatHistory (step M s e) = chatHistory s
    \<or> (\<exists>q. (e = AskClick \<or> (\<exists>k. e = KeyPress k) \<or> (\<exists>a. e = QuickPromptClick a)) \<and> q \<noteq> [] \<and>
          chatHistory (step M s e) = chatHistory s @ [human_record (JStr q)])
    \<or> (\<exists>t data. e = AskResolved t data \<and> \<not> truthy (property data ''error'') \<and>
          chatHistory (step M s e) = chatHistory s @ [ai_record (property data ''answer'')])
    \<or> (e = ProcessClick \<and> chatHistory (step M s e) = []))
   \<and> (prefix (chatHistory s) (chatHistory (run M s evs)) \<or> ProcessClick \<in> set evs)"
  using step_history_cases [of M s e] run_history_prefix [of s M evs] by simp

text \<open>After a question and its answer, a click of the process button empties the history.\<close>

theorem history_appended_or_cleared_witness:
  "chatHistory (run messages opened asked) \<noteq> [] \<and>
   chatHistory (step messages (run messages opened asked) ProcessClick) = [] \<and>
   ProcessClick \<notin> set [AskResolved 4 [(''answer'', JStr ''A summary.'')]] \<and>
   prefix (chatHistory (run messages opened asked))
     (chatHistory (run messages (run messages opened asked)
        [AskResolved 4 [(''answer'', JStr ''A summary.'')]]))"
proof -
  have a: "chatHistory (run messages opened asked) \<noteq> []" by code_simp
  have b: "chatHistory (step messages (run messages opened asked) ProcessClick) = []"
    by code_simp
  show ?thesis
    using a b
      history_appended_or_cleared [of messages "run messages opened asked" ProcessClick
        "[AskResolved 4 [(''answer'', JStr ''A summary.'')]]"]
    by simp
qed

subsection \<open>The requests\<close>

lemma ask_catch_frame:
  "sent (ask_catch t msg s) = sent s \<and> dataTheme (ask_catch t msg s) = dataTheme s \<and>
   storedTheme (ask_catch t msg s) = storedTheme s"
  by (simp add: ask_catch_def ask_finally_def remove_node_def addMessageToChat_string Let_def)

lemma ask_then_frame:
  "sent (ask_then M t data s) = sent s \<and> dataTheme (ask_then M t data s) = dataTheme s \<and>
   storedTheme (ask_then M t data s) = storedTheme s"
proof (cases "truthy (property data ''error'')")
  case True
  then show ?thesis by (simp add: ask_then_error ask_catch_frame)
next
  case False
  show ?thesis
  proof (cases "is_str (property data ''answer'')")
    case True
    then obtain a where "property data ''answer'' = JStr a" using is_str_JStr by blast
    with False show ?thesis
      by (simp add: ask_then_answer ask_finally_def addMessageToChat_string remove_node_def)
  next
    case n: False
    with False show ?thesis
      by (simp add: ask_then_throws ask_catch_frame remove_node_def)
  qed
qed

lemma proc_catch_frame:
  "sent (proc_catch msg s) = sent s \<and> dataTheme (proc_catch msg s) = dataTheme s \<and>
   storedTheme (proc_catch msg s) = storedTheme s"
  by (simp add: proc_catch_def proc_finally_def showError_string updateStatus_def
      addMessageToChat_string Let_def)

lemma proc_then_frame:
  "sent (proc_then M data s) = sent s \<and> dataTheme (proc_then M data s) = dataTheme s \<and>
   storedTheme (proc_then M data s) = storedTheme s"
proof (cases "truthy (property data ''error'')")
  case True
  then show ?thesis
    by (simp add: proc_then_error proc_finally_def showError_string updateStatus_def
        addMessageToChat_string Let_def)
next
  case False
  then show ?thesis
    by (simp add: proc_then_ready proc_finally_def updateStatus_def addMessageToChat_string
        Let_def)
qed

lemma sendQuestion_sent:
  "sent (sendQuestion (JStr q) s) =
     (if q = [] then sent s else sent s @ [ask_request q (chatHistory s)])"
  by (simp add: sendQuestion_def addMessageToChat_user addMessageToChat_string base_url_def
      post_def ask_request_def json_post_def human_record_def Let_def)

lemma sendQuestion_null_sent: "sent (sendQuestion JNull s) = sent s"
  by (simp add: sendQuestion_def)

lemma ask_request_ok: "q \<noteq> [] \<Longrightarrow> endpoint_ok (ask_request q h)"
  by (simp add: endpoint_ok_def ask_request_def json_post_def property_def human_record_def)

lemma tabs_callback_sent:
  "sent (tabs_callback tab_url v s) =
     (case tab_url of
        None \<Rightarrow> sent s
      | Some u \<Rightarrow>
          if endsWith u ''.pdf'' then sent s @ [json_post ''/process_pdf'' [(''pdf_url'', JStr u)]]
          else if js_includes u ''youtube.com/watch'' then
            (case v of
               None \<Rightarrow> sent s
             | Some i \<Rightarrow>
                 if i = [] then sent s
                 else sent s @ [json_post ''/process_youtube'' [(''videoId'', JStr i)]])
          else sent s)"
  by (simp add: tabs_callback_def fetchAndProcess_def showError_string updateStatus_def
      addMessageToChat_string base_url_def post_def json_post_def Let_def
      split: option.splits)

lemma script_callback_sent:
  "sent (script_callback injected s) =
     (case injected of
        None \<Rightarrow> sent s
      | Some c \<Rightarrow> sent s @ [json_post ''/process_webpage'' [(''content'', JStr c)]])"
  by (simp add: script_callback_def fetchAndProcess_def showError_string updateStatus_def
      addMessageToChat_string base_url_def post_def json_post_def Let_def
      split: option.splits)

lemma settle_sent: "sent (settle p s) = sent s"
  by (simp add: settle_def)

lemma step_sent:
  "sent (step M s e) = sent s \<or>
   (\<exists>r. endpoint_ok r \<and> expected s e = Some r \<and> sent (step M s e) = sent s @ [r])"
proof (cases e)
  case AskClick
  then show ?thesis
    by (simp add: askButton_dot_click_def askButton_click_def sendQuestion_sent ask_request_ok)
next
  case (KeyPress k)
  then show ?thesis
    by (simp add: questionInput_keypress_def askButton_dot_click_def askButton_click_def
        sendQuestion_sent ask_request_ok)
next
  case (TypeText t)
  then show ?thesis by simp
next
  case (QuickPromptClick a)
  then show ?thesis
    by (cases a)
       (simp_all add: quickPrompt_click_def sendQuestion_sent sendQuestion_null_sent
          ask_request_ok)
next
  case ProcessClick
  then show ?thesis
    by (simp add: processButton_click_def addMessageToChat_string updateStatus_def Let_def)
next
  case ThemeToggle
  then show ?thesis by (simp add: themeToggle_click_def updateThemeIcon_def Let_def)
next
  case (AskResolved t data)
  then show ?thesis by (simp add: ask_then_frame settle_sent)
next
  case (AskRejected t msg)
  then show ?thesis by (simp add: ask_catch_frame settle_sent)
next
  case (TabsResult u v)
  then show ?thesis
    by (simp add: tabs_callback_sent settle_sent endpoint_ok_def json_post_def property_def
        split: option.splits)
next
  case (ScriptResult r)
  then show ?thesis
    by (simp add: script_callback_sent settle_sent endpoint_ok_def json_post_def property_def
        split: option.splits)
next
  case (ProcResolved data)
  then show ?thesis by (simp add: proc_then_frame settle_sent)
next
  case (ProcRejected msg)
  then show ?thesis by (simp add: proc_catch_frame settle_sent)
qed

lemma run_sent:
  "list_all endpoint_ok (sent s) \<Longrightarrow> list_all endpoint_ok (sent (run M s evs))"
proof (induction evs rule: rev_induct)
  case Nil
  then show ?case by (simp add: run_Nil)
next
  case (snoc e evs)
  then have "list_all endpoint_ok (sent (run M s evs))" by simp
  with step_sent [of M "run M s evs" e] show ?case by (auto simp: run_snoc)
qed

lemma requests_sent:
  "(\<not> askDisabled s \<and> trim (inputValue s) \<noteq> [] \<longrightarrow>
      sent (step M s AskClick) =
        sent s @ [ask_request (trim (inputValue s)) (chatHistory s)]) \<and>
   (\<not> inputDisabled s \<and> \<not> askDisabled s \<and> trim (inputValue s) \<noteq> [] \<longrightarrow>
      sent (step M s (KeyPress ''Enter'')) =
        sent s @ [ask_request (trim (inputValue s)) (chatHistory s)]) \<and>
   (quickDisplay s \<noteq> ''none'' \<and> p \<noteq> [] \<longrightarrow>
      sent (step M s (QuickPromptClick (Some p))) = sent s @ [ask_request p (chatHistory s)]) \<and>
   (TabsQuery \<in> set (pending s) \<and> endsWith u ''.pdf'' \<longrightarrow>
      sent (step M s (TabsResult (Some u) v)) =
        sent s @ [json_post ''/process_pdf'' [(''pdf_url'', JStr u)]]) \<and>
   (TabsQuery \<in> set (pending s) \<and> \<not> endsWith u ''.pdf'' \<and>
    js_includes u ''youtube.com/watch'' \<and> i \<noteq> [] \<longrightarrow>
      sent (step M s (TabsResult (Some u) (Some i))) =
        sent s @ [json_post ''/process_youtube'' [(''videoId'', JStr i)]]) \<and>
   (ScriptExec \<in> set (pending s) \<longrightarrow>
      sent (step M s (ScriptResult (Some c))) =
        sent s @ [json_post ''/process_webpage'' [(''content'', JStr c)]])"
  by (simp add: askButton_dot_click_def askButton_click_def questionInput_keypress_def
      quickPrompt_click_def sendQuestion_sent tabs_callback_sent script_callback_sent
      settle_sent settle_history)

lemma ask_then_reads_error_and_answer:
  assumes e: "property d ''error'' = property d' ''error''"
    and a: "property d ''answer'' = property d' ''answer''"
  shows "ask_then M t d s = ask_then M t d' s"
  unfolding ask_then_def ask_data_def e a by (rule refl)

lemma ask_catch_shows: "shows_error msg (ask_catch t msg s)"
  by (simp add: shows_error_def ask_catch_def ask_finally_def remove_node_def
      addMessageToChat_string Let_def cross_mark_def)

lemma ask_then_shows:
  "(truthy (property d ''error'') \<longrightarrow>
      shows_error (ask_error_text M (property d ''error'')) (ask_then M t d s)) \<and>
   (\<not> truthy (property d ''error'') \<and> \<not> is_str (property d ''answer'') \<longrightarrow>
      shows_error (M (MarkedInput (property d ''answer''))) (ask_then M t d s)) \<and>
   (\<not> truthy (property d ''error'') \<and> property d ''answer'' = JStr a \<longrightarrow>
      last (chatWindow (ask_then M t d s)) =
        MessageDiv (fresh s) ''message ai-message''
          (if a = ''Thinking...'' then TypingIndicator else Markdown (JStr a)))"
  by (simp add: ask_then_error ask_then_throws ask_then_answer ask_catch_shows ask_finally_def
      addMessageToChat_string remove_node_def)

text \<open>
  C7. In a run from a state whose requests so far went to the four endpoints (none, when
  the popup opens), every request made is a POST of JSON to one of \<open>/ask\<close>,
  \<open>/process_pdf\<close>, \<open>/process_youtube\<close> and \<open>/process_webpage\<close> under
  \<open>http://127.0.0.1:5000\<close>. A step makes no request or the one request of its event: a
  question that is sent goes to \<open>/ask\<close> with the question and with the history that
  ends with its record, a tab with a PDF goes to \<open>/process_pdf\<close> with the URL of the
  tab as \<open>pdf_url\<close>, a YouTube tab with a video identifier goes to \<open>/process_youtube\<close>
  with it as \<open>videoId\<close>, and the page that the script returned goes to
  \<open>/process_webpage\<close> as \<open>content\<close>. Of the answer of \<open>/ask\<close> the callback reads \<open>error\<close>
  and \<open>answer\<close> and nothing else: with an error it shows the error and leaves the
  history, with a string for an answer and no error it shows the answer and appends it to
  the history as the AI record, and otherwise it shows the error of the rendering and
  leaves the history.
\<close>

theorem requests_go_to_four_endpoints:
  assumes "list_all endpoint_ok (sent s0)"
  shows "list_all endpoint_ok (sent (run M s0 evs)) \<and>
         (sent (step M s e) = sent s \<or>
          (\<exists>r. endpoint_ok r \<and> expected s e = Some r \<and> sent (step M s e) = sent s @ [r])) \<and>
         (\<not> askDisabled s \<and> trim (inputValue s) \<noteq> [] \<longrightarrow>
            sent (step M s AskClick) =
              sent s @ [ask_request (trim (inputValue s)) (chatHistory s)]) \<and>
         (\<not> inputDisabled s \<and> \<not> askDisabled s \<and> trim (inputValue s) \<noteq> [] \<longrightarrow>
            sent (step M s (KeyPress ''Enter'')) =
              sent s @ [ask_request (trim (inputValue s)) (chatHistory s)]) \<and>
         (quickDisplay s \<noteq> ''none'' \<and> p \<noteq> [] \<longrightarrow>
            sent (step M s (QuickPromptClick (Some p))) =
              sent s @ [ask_request p (chatHistory s)]) \<and>
         (TabsQuery \<in> set (pending s) \<and> endsWith u ''.pdf'' \<longrightarrow>
            sent (step M s (TabsResult (Some u) v)) =
              sent s @ [json_post ''/process_pdf'' [(''pdf_url'', JStr u)]]) \<and>
         (TabsQuery \<in> set (pending s) \<and> \<not> endsWith u ''.pdf'' \<and>
          js_includes u ''youtube.com/watch'' \<and> i \<noteq> [] \<longrightarrow>
            sent (step M s (TabsResult (Some u) (Some i))) =
              sent s @ [json_post ''/process_youtube'' [(''videoId'', JStr i)]]) \<and>
         (ScriptExec \<in> set (pending s) \<longrightarrow>
            sent (step M s (ScriptResult (Some c))) =
              sent s @ [json_post ''/process_webpage'' [(''content'', JStr c)]]) \<and>
         (property d ''error'' = property d' ''error'' \<and>
          property d ''answer'' = property d' ''answer'' \<longrightarrow>
            ask_then M t d s = ask_then M t d' s) \<and>
         (truthy (property d ''error'') \<longrightarrow>
            shows_error (ask_error_text M (property d ''error'')) (ask_then M t d s)) \<and>
         (\<not> truthy (property d ''error'') \<and> \<not> is_str (property d ''answer'') \<longrightarrow>
            shows_error (M (MarkedInput (property d ''answer''))) (ask_then M t d s)) \<and>
         (\<not> truthy (property d ''error'') \<and> property d ''answer'' = JStr a \<longrightarrow>
            last (chatWindow (ask_then M t d s)) =
              MessageDiv (fresh s) ''message ai-message''
                (if a = ''Thinking...'' then TypingIndicator else Markdown (JStr a))) \<and>
         chatHistory (ask_then M t d s) =
           (if \<not> truthy (property d ''error'') \<and> is_str (property d ''answer'')
            then chatHistory s @ [ai_record (property d ''answer'')]
            else chatHistory s)"
  using run_sent [OF assms, of M evs] step_sent [of M s e] requests_sent [of s M p u v i c]
    ask_then_reads_error_and_answer [of d d' M t s] ask_then_shows [of d M t s a]
    ask_then_history [of M t data s for data]
  by presburger

text \<open>
  A run that reaches the four endpoints; the question typed after a processed PDF, sent by
  the button, by the Enter key and as a quick prompt; a PDF tab, a YouTube tab and a
  page from the script; and answers of \<open>/ask\<close>, one of them with a field that is not read.
\<close>

theorem requests_go_to_four_endpoints_witness:
  "list_all endpoint_ok (sent opened) \<and>
   list_all endpoint_ok (sent (run messages opened all_endpoints)) \<and>
   sent (run messages opened all_endpoints) =
     [\<lparr>url = ''http://127.0.0.1:5000/process_pdf'', method = ''POST'',
       headers = [(''Content-Type'', ''application/json'')],
       body = JObj [(''pdf_url'', JStr ''https://example.org/a.pdf'')]\<rparr>,
      \<lparr>url = ''http://127.0.0.1:5000/ask'', method = ''POST'',
       headers = [(''Content-Type'', ''application/json'')],
       body = JObj [(''question'', JStr ''Summarize''),
                    (''history'', JArr [JObj [(''type'', JStr ''human''),
                                              (''content'', JStr ''Summarize'')]])]\<rparr>,
      \<lparr>url = ''http://127.0.0.1:5000/process_youtube'', method = ''POST'',
       headers = [(''Content-Type'', ''application/json'')],
       body = JObj [(''videoId'', JStr ''abc'')]\<rparr>,
      \<lparr>url = ''http://127.0.0.1:5000/process_webpage'', method = ''POST'',
       headers = [(''Content-Type'', ''application/json'')],
       body = JObj [(''content'', JStr ''<html></html>'')]\<rparr>] \<and>
   \<not> askDisabled (run messages opened typed) \<and>
   \<not> inputDisabled (run messages opened typed) \<and>
   trim (inputValue (run messages opened typed)) = ''Hi'' \<and>
   chatHistory (run messages opened typed) = [] \<and>
   sent (step messages (run messages opened typed) AskClick) =
     sent (run messages opened typed) @
       [ask_request (trim (inputValue (run messages opened typed)))
          (chatHistory (run messages opened typed))] \<and>
   sent (step messages (run messages opened typed) (KeyPress ''Enter'')) =
     sent (run messages opened typed) @
       [ask_request (trim (inputValue (run messages opened typed)))
          (chatHistory (run messages opened typed))] \<and>
   quickDisplay (run messages opened typed) \<noteq> ''none'' \<and>
   sent (step messages (run messages opened typed) (QuickPromptClick (Some ''Summarize''))) =
     sent (run messages opened typed) @
       [ask_request ''Summarize'' (chatHistory (run messages opened typed))] \<and>
   TabsQuery \<in> set (pending (run messages opened [ProcessClick])) \<and>
   endsWith ''https://example.org/a.pdf'' ''.pdf'' \<and>
   sent (step messages (run messages opened [ProcessClick])
          (TabsResult (Some ''https://example.org/a.pdf'') None)) =
     sent (run messages opened [ProcessClick]) @
       [json_post ''/process_pdf'' [(''pdf_url'', JStr ''https://example.org/a.pdf'')]] \<and>
   \<not> endsWith ''https://www.youtube.com/watch?v=abc'' ''.pdf'' \<and>
   js_includes ''https://www.youtube.com/watch?v=abc'' ''youtube.com/watch'' \<and>
   sent (step messages (run messages opened [ProcessClick])
          (TabsResult (Some ''https://www.youtube.com/watch?v=abc'') (Some ''abc''))) =
     sent (run messages opened [ProcessClick]) @
       [json_post ''/process_youtube'' [(''videoId'', JStr ''abc'')]] \<and>
   ScriptExec \<in> set (pending (run messages opened [ProcessClick, web_tab])) \<and>
   sent (step messages (run messages opened [ProcessClick, web_tab])
          (ScriptResult (Some ''<html></html>''))) =
     sent (run messages opened [ProcessClick, web_tab]) @
       [json_post ''/process_webpage'' [(''content'', JStr ''<html></html>'')]] \<and>
   property [(''answer'', JStr ''A''), (''model'', JStr ''m'')] ''error'' =
     property [(''answer'', JStr ''A'')] ''error'' \<and>
   property [(''answer'', JStr ''A''), (''model'', JStr ''m'')] ''answer'' =
     property [(''answer'', JStr ''A'')] ''answer'' \<and>
   ask_then messages 4 [(''answer'', JStr ''A''), (''model'', JStr ''m'')] opened =
     ask_then messages 4 [(''answer'', JStr ''A'')] opened \<and>
   chatHistory (ask_then messages 4 [(''answer'', JStr ''A''), (''model'', JStr ''m'')] opened) =
     [JObj [(''type'', JStr ''ai''), (''content'', JStr ''A'')]] \<and>
   last (chatWindow (ask_then messages 4 [(''answer'', JStr ''A''), (''model'', JStr ''m'')] opened)) =
     MessageDiv 0 ''message ai-message'' (Markdown (JStr ''A'')) \<and>
   truthy (property [(''error'', JStr ''No document'')] ''error'') \<and>
   shows_error ''No document''
     (ask_then messages 4 [(''error'', JStr ''No document'')] opened) \<and>
   \<not> truthy (property [] ''error'') \<and> \<not> is_str (property [] ''answer'') \<and>
   shows_error ''marked(): input parameter is undefined or null''
     (ask_then messages 4 [] opened)"
proof -
  have a: "list_all endpoint_ok (sent opened)" by (simp add: opened_def)
  have b: "sent (run messages opened all_endpoints) =
     [\<lparr>url = ''http://127.0.0.1:5000/process_pdf'', method = ''POST'',
       headers = [(''Content-Type'', ''application/json'')],
       body = JObj [(''pdf_url'', JStr ''https://example.org/a.pdf'')]\<rparr>,
      \<lparr>url = ''http://127.0.0.1:5000/ask'', method = ''POST'',
       headers = [(''Content-Type'', ''application/json'')],
       body = JObj [(''question'', JStr ''Summarize''),
                    (''history'', JArr [JObj [(''type'', JStr ''human''),
                                              (''content'', JStr ''Summarize'')]])]\<rparr>,
      \<lparr>url = ''http://127.0.0.1:5000/process_youtube'', method = ''POST'',
       headers = [(''Content-Type'', ''application/json'')],
       body = JObj [(''videoId'', JStr ''abc'')]\<rparr>,
      \<lparr>url = ''http://127.0.0.1:5000/process_webpage'', method = ''POST'',
       headers = [(''Content-Type'', ''application/json'')],
       body = JObj [(''content'', JStr ''<html></html>'')]\<rparr>]"
    by code_simp
  have t1: "\<not> askDisabled (run messages opened typed)" by code_simp
  have t2: "\<not> inputDisabled (run messages opened typed)" by code_simp
  have t3: "trim (inputValue (run messages opened typed)) = ''Hi''" by code_simp
  then have t3': "trim (inputValue (run messages opened typed)) \<noteq> []" by simp
  have t4: "chatHistory (run messages opened typed) = []" by code_simp
  have t5: "quickDisplay (run messages opened typed) \<noteq> ''none''" by code_simp
  have t6: "''Summarize'' \<noteq> []" by simp
  have q1: "TabsQuery \<in> set (pending (run messages opened [ProcessClick]))" by code_simp
  have q2: "endsWith ''https://example.org/a.pdf'' ''.pdf''" by code_simp
  have q3: "\<not> endsWith ''https://www.youtube.com/watch?v=abc'' ''.pdf''" by code_simp
  have q4: "js_includes ''https://www.youtube.com/watch?v=abc'' ''youtube.com/watch''"
    by code_simp
  have q5: "''abc'' \<noteq> []" by simp
  have w1: "ScriptExec \<in> set (pending (run messages opened [ProcessClick, web_tab]))"
    by code_simp
  have c: "property [(''answer'', JStr ''A''), (''model'', JStr ''m'')] ''error'' =
     property [(''answer'', JStr ''A'')] ''error''"
    by (simp add: property_def)
  have d: "property [(''answer'', JStr ''A''), (''model'', JStr ''m'')] ''answer'' =
     property [(''answer'', JStr ''A'')] ''answer''"
    by (simp add: property_def)
  have d1: "\<not> truthy (property [(''answer'', JStr ''A''), (''model'', JStr ''m'')] ''error'')"
    by (simp add: property_def)
  have d2: "property [(''answer'', JStr ''A''), (''model'', JStr ''m'')] ''answer'' = JStr ''A''"
    by (simp add: property_def)
  have e1: "truthy (property [(''error'', JStr ''No document'')] ''error'')"
    by (simp add: property_def)
  have e2: "ask_error_text messages (property [(''error'', JStr ''No document'')] ''error'') =
              ''No document''"
    by (simp add: property_def ask_error_text_def)
  have n1: "\<not> truthy (property [] ''error'')" by (simp add: property_def)
  have n2: "\<not> is_str (property [] ''answer'')" by (simp add: property_def)
  have n3: "messages (MarkedInput (property [] ''answer'')) =
              ''marked(): input parameter is undefined or null''"
    by simp
  note r1 = requests_go_to_four_endpoints [OF a, where M = messages and evs = all_endpoints
      and s = "run messages opened typed" and p = "''Summarize''"]
  note r2 = requests_go_to_four_endpoints [OF a, where M = messages
      and s = "run messages opened [ProcessClick]" and u = "''https://example.org/a.pdf''"
      and v = None]
  note r3 = requests_go_to_four_endpoints [OF a, where M = messages
      and s = "run messages opened [ProcessClick]"
      and u = "''https://www.youtube.com/watch?v=abc''" and i = "''abc''"]
  note r4 = requests_go_to_four_endpoints [OF a, where M = messages
      and s = "run messages opened [ProcessClick, web_tab]" and c = "''<html></html>''"]
  note r5 = requests_go_to_four_endpoints [OF a, where M = messages and s = opened and t = 4
      and d = "[(''answer'', JStr ''A''), (''model'', JStr ''m'')]"
      and d' = "[(''answer'', JStr ''A'')]" and a = "''A''"]
  note r6 = requests_go_to_four_endpoints [OF a, where M = messages and s = opened and t = 4
      and d = "[(''error'', JStr ''No document'')]"]
  note r7 = requests_go_to_four_endpoints [OF a, where M = messages and s = opened and t = 4
      and d = "[]"]
  have g0: "list_all endpoint_ok (sent (run messages opened all_endpoints))"
    by (rule r1 [THEN conjunct1])
  have g1: "sent (step messages (run messages opened typed) AskClick) =
     sent (run messages opened typed) @
       [ask_request (trim (inputValue (run messages opened typed)))
          (chatHistory (run messages opened typed))]"
    by (rule r1 [THEN conjunct2, THEN conjunct2, THEN conjunct1, THEN mp, OF conjI, OF t1 t3'])
  have g2: "sent (step messages (run messages opened typed) (KeyPress ''Enter'')) =
     sent (run messages opened typed) @
       [ask_request (trim (inputValue (run messages opened typed)))
          (chatHistory (run messages opened typed))]"
    by (rule r1 [THEN conjunct2, THEN conjunct2, THEN conjunct2, THEN conjunct1, THEN mp,
          OF conjI, OF t2 conjI, OF t1 t3'])
  have g3: "sent (step messages (run messages opened typed)
              (QuickPromptClick (Some ''Summarize''))) =
     sent (run messages opened typed) @
       [ask_request ''Summarize'' (chatHistory (run messages opened typed))]"
    by (rule r1 [THEN conjunct2, THEN conjunct2, THEN conjunct2, THEN conjunct2,
          THEN conjunct1, THEN mp, OF conjI, OF t5 t6])
  have g4: "sent (step messages (run messages opened [ProcessClick])
          (TabsResult (Some ''https://example.org/a.pdf'') None)) =
     sent (run messages opened [ProcessClick]) @
       [json_post ''/process_pdf'' [(''pdf_url'', JStr ''https://example.org/a.pdf'')]]"
    by (rule r2 [THEN conjunct2, THEN conjunct2, THEN conjunct2, THEN conjunct2,
          THEN conjunct2, THEN conjunct1, THEN mp, OF conjI, OF q1 q2])
  have g5: "sent (step messages (run messages opened [ProcessClick])
          (TabsResult (Some ''https://www.youtube.com/watch?v=abc'') (Some ''abc''))) =
     sent (run messages opened [ProcessClick]) @
       [json_post ''/process_youtube'' [(''videoId'', JStr ''abc'')]]"
    by (rule r3 [THEN conjunct2, THEN conjunct2, THEN conjunct2, THEN conjunct2,
          THEN conjunct2, THEN conjunct2, THEN conjunct1, THEN mp,
          OF conjI, OF q1 conjI, OF q3 conjI, OF q4 q5])
  have g6: "sent (step messages (run messages opened [ProcessClick, web_tab])
          (ScriptResult (Some ''<html></html>''))) =
     sent (run messages opened [ProcessClick, web_tab]) @
       [json_post ''/process_webpage'' [(''content'', JStr ''<html></html>'')]]"
    by (rule r4 [THEN conjunct2, THEN conjunct2, THEN conjunct2, THEN conjunct2,
          THEN conjunct2, THEN conjunct2, THEN conjunct2, THEN conjunct1, THEN mp, OF w1])
  note rest = r5 [THEN conjunct2, THEN conjunct2, THEN conjunct2, THEN conjunct2,
          THEN conjunct2, THEN conjunct2, THEN conjunct2, THEN conjunct2]
  have g7: "ask_then messages 4 [(''answer'', JStr ''A''), (''model'', JStr ''m'')] opened =
     ask_then messages 4 [(''answer'', JStr ''A'')] opened"
    by (rule rest [THEN conjunct1, THEN mp, OF conjI, OF c d])
  have "chatHistory (ask_then messages 4 [(''answer'', JStr ''A''), (''model'', JStr ''m'')] opened) =
     (if \<not> truthy (property [(''answer'', JStr ''A''), (''model'', JStr ''m'')] ''error'') \<and>
         is_str (property [(''answer'', JStr ''A''), (''model'', JStr ''m'')] ''answer'')
      then chatHistory opened @
        [ai_record (property [(''answer'', JStr ''A''), (''model'', JStr ''m'')] ''answer'')]
      else chatHistory opened)"
    by (rule rest [THEN conjunct2, THEN conjunct2, THEN conjunct2, THEN conjunct2])
  then have g8: "chatHistory
      (ask_then messages 4 [(''answer'', JStr ''A''), (''model'', JStr ''m'')] opened) =
     [JObj [(''type'', JStr ''ai''), (''content'', JStr ''A'')]]"
    by (simp add: property_def ai_record_def opened_def)
  have "last (chatWindow
      (ask_then messages 4 [(''answer'', JStr ''A''), (''model'', JStr ''m'')] opened)) =
     MessageDiv (fresh opened) ''message ai-message''
       (if ''A'' = ''Thinking...'' then TypingIndicator else Markdown (JStr ''A''))"
    by (rule rest [THEN conjunct2, THEN conjunct2, THEN conjunct2, THEN conjunct1, THEN mp,
          OF conjI, OF d1 d2])
  then have g9: "last (chatWindow
      (ask_then messages 4 [(''answer'', JStr ''A''), (''model'', JStr ''m'')] opened)) =
     MessageDiv 0 ''message ai-message'' (Markdown (JStr ''A''))"
    by (simp add: opened_def)
  have "shows_error (ask_error_text messages (property [(''error'', JStr ''No document'')] ''error''))
     (ask_then messages 4 [(''error'', JStr ''No document'')] opened)"
    by (rule r6 [THEN conjunct2, THEN conjunct2, THEN conjunct2, THEN conjunct2,
          THEN conjunct2, THEN conjunct2, THEN conjunct2, THEN conjunct2, THEN conjunct2,
          THEN conjunct1, THEN mp, OF e1])
  then have g10: "shows_error ''No document''
     (ask_then messages 4 [(''error'', JStr ''No document'')] opened)"
    by (simp only: e2)
  have "shows_error (messages (MarkedInput (property [] ''answer'')))
     (ask_then messages 4 [] opened)"
    by (rule r7 [THEN conjunct2, THEN conjunct2, THEN conjunct2, THEN conjunct2,
          THEN conjunct2, THEN conjunct2, THEN conjunct2, THEN conjunct2, THEN conjunct2,
          THEN conjunct2, THEN conjunct1, THEN mp, OF conjI, OF n1 n2])
  then have g11: "shows_error ''marked(): input parameter is undefined or null''
     (ask_then messages 4 [] opened)"
    by (simp only: n3)
  show ?thesis
    by (intro conjI a b g0 t1 t2 t3 t4 g1 g2 t5 g3 q1 q2 g4 q3 q4 g5 w1 g6 c d g7 g8 g9 e1 g10
        n1 n2 g11)
qed

subsection \<open>The theme\<close>

lemma sendQuestion_theme:
  "dataTheme (sendQuestion q s) = dataTheme s \<and> storedTheme (sendQuestion q s) = storedTheme s"
  by (simp add: sendQuestion_def addMessageToChat_user addMessageToChat_string Let_def)

lemma step_theme:
  "e \<noteq> ThemeToggle \<Longrightarrow>
   dataTheme (step M s e) = dataTheme s \<and> storedTheme (step M s e) = storedTheme s"
proof (cases e)
  case (QuickPromptClick a)
  then show ?thesis by (simp add: quickPrompt_click_def sendQuestion_theme)
next
  case (TabsResult u v)
  then show ?thesis
    by (simp add: tabs_callback_def fetchAndProcess_def showError_string updateStatus_def
        addMessageToChat_string settle_def Let_def split: option.splits)
next
  case (ScriptResult r)
  then show ?thesis
    by (simp add: script_callback_def fetchAndProcess_def showError_string updateStatus_def
        addMessageToChat_string settle_def Let_def split: option.splits)
qed (simp_all add: askButton_dot_click_def askButton_click_def questionInput_keypress_def
      sendQuestion_theme processButton_click_def addMessageToChat_string updateStatus_def
      ask_then_frame ask_catch_frame proc_then_frame proc_catch_frame settle_def Let_def)

lemma toggle_theme:
  "theme_inv s \<Longrightarrow>
   dataTheme (step M s ThemeToggle) = Some (other_theme (the (dataTheme s))) \<and>
   storedTheme (step M s ThemeToggle) = Some (other_theme (the (dataTheme s))) \<and>
   theme_inv (step M s ThemeToggle)"
  by (auto simp: theme_inv_def themeToggle_click_def updateThemeIcon_def other_theme_def
      is_theme_def Let_def split: option.splits)

lemma step_theme_inv: "theme_inv s \<Longrightarrow> theme_inv (step M s e)"
proof (cases "e = ThemeToggle")
  case True
  assume "theme_inv s"
  with True show ?thesis by (simp add: toggle_theme del: step.simps)
next
  case False
  assume "theme_inv s"
  with step_theme [OF False, of M s] show ?thesis
    by (simp add: theme_inv_def split: option.splits)
qed

lemma run_theme_inv: "theme_inv s \<Longrightarrow> theme_inv (run M s evs)"
  by (induction evs rule: rev_induct) (simp_all add: run_Nil run_snoc step_theme_inv)

lemma load_theme_inv:
  assumes "case storedTheme s of None \<Rightarrow> True | Some t \<Rightarrow> is_theme t"
  shows "dataTheme (load_theme s) = Some (case storedTheme s of None \<Rightarrow> ''light'' | Some t \<Rightarrow> t)
         \<and> storedTheme (load_theme s) = storedTheme s \<and> theme_inv (load_theme s)"
  using assms
  by (auto simp: load_theme_def updateThemeIcon_def theme_inv_def is_theme_def Let_def
      split: option.splits)

text \<open>
  C8. The storage holds no theme or one of \<open>"light"\<close> and \<open>"dark"\<close> (the popup is the only
  writer of the entry). Loading sets the theme of the document to the stored one, to
  \<open>"light"\<close> when none is stored, and leaves the storage. After any run \<open>evs\<close> from there
  the theme of the document is \<open>"light"\<close> or \<open>"dark"\<close> and the stored one, if any, is the
  same; a toggle then sets the document to the other value and stores that value.
\<close>

theorem theme_is_light_or_dark:
  assumes "case storedTheme s of None \<Rightarrow> True | Some t \<Rightarrow> is_theme t"
    and "s1 = run M (load_theme s) evs"
  shows "dataTheme (load_theme s) = Some (case storedTheme s of None \<Rightarrow> ''light'' | Some t \<Rightarrow> t) \<and>
         storedTheme (load_theme s) = storedTheme s \<and>
         theme_inv s1 \<and>
         dataTheme (step M s1 ThemeToggle) = Some (other_theme (the (dataTheme s1))) \<and>
         storedTheme (step M s1 ThemeToggle) = Some (other_theme (the (dataTheme s1)))"
proof -
  from load_theme_inv [OF assms(1)] have l: "theme_inv (load_theme s)" by simp
  then have "theme_inv s1" using assms(2) by (simp add: run_theme_inv)
  with toggle_theme [of s1 M] load_theme_inv [OF assms(1)] show ?thesis by simp
qed

text \<open>Nothing stored: the theme is light; one toggle makes it dark, the next light again.\<close>

theorem theme_is_light_or_dark_witness:
  "(case storedTheme opened of None \<Rightarrow> True | Some t \<Rightarrow> is_theme t) \<and>
   dataTheme (load_theme opened) = Some ''light'' \<and>
   storedTheme (load_theme opened) = None \<and>
   dataTheme (run messages (load_theme opened) [ThemeToggle]) = Some ''dark'' \<and>
   storedTheme (run messages (load_theme opened) [ThemeToggle]) = Some ''dark'' \<and>
   theme_inv (run messages (load_theme opened) [ThemeToggle]) \<and>
   dataTheme (step messages (run messages (load_theme opened) [ThemeToggle]) ThemeToggle) =
     Some ''light'' \<and>
   storedTheme (step messages (run messages (load_theme opened) [ThemeToggle]) ThemeToggle) =
     Some ''light''"
proof -
  have a: "case storedTheme opened of None \<Rightarrow> True | Some t \<Rightarrow> is_theme t"
    by (simp add: opened_def)
  have b: "storedTheme opened = None" by (simp add: opened_def)
  have c: "dataTheme (run messages (load_theme opened) [ThemeToggle]) = Some ''dark''"
    by code_simp
  have d: "storedTheme (run messages (load_theme opened) [ThemeToggle]) = Some ''dark''"
    by code_simp
  show ?thesis
    using a b c d theme_is_light_or_dark [OF a refl, of messages "[ThemeToggle]"]
    by (simp add: other_theme_def)
qed

subsection \<open>A question that fails\<close>

text \<open>
  C9. A question \<open>q\<close> that is not empty is sent from any state \<open>s\<close> and its request fails:
  the fetch is rejected, or the answer carries an error (a value of \<open>error\<close> that
  \<open>if (data.error)\<close> takes for true). The history is then the history of \<open>s\<close> followed by
  the human record of \<open>q\<close>: the record stays and no AI record is appended.
\<close>

theorem failed_send_keeps_human_record:
  assumes "q \<noteq> []" and "s1 = sendQuestion (JStr q) s"
  shows "chatHistory (step M s1 (AskRejected (Suc (fresh s)) msg)) =
           chatHistory s @ [human_record (JStr q)] \<and>
         (truthy (property data ''error'') \<longrightarrow>
            chatHistory (step M s1 (AskResolved (Suc (fresh s)) data)) =
              chatHistory s @ [human_record (JStr q)])"
proof -
  have q: "truthy (JStr q)" using assms(1) by simp
  have h1: "chatHistory s1 = chatHistory s @ [human_record (JStr q)]"
    using q assms(2) by (simp add: sendQuestion_history)
  have p: "AskFetch (Suc (fresh s)) \<in> set (pending s1)"
    using q assms(2) by (simp add: sendQuestion_pending)
  show ?thesis
    using p h1 by (simp add: ask_then_history ask_catch_history settle_history)
qed

theorem failed_send_keeps_human_record_witness:
  "''Hi'' \<noteq> [] \<and> truthy (property [(''error'', JStr ''No document'')] ''error'') \<and>
   chatHistory (step messages (sendQuestion (JStr ''Hi'') opened)
       (AskRejected (Suc (fresh opened)) ''Failed to fetch'')) =
     [JObj [(''type'', JStr ''human''), (''content'', JStr ''Hi'')]] \<and>
   chatHistory (step messages (sendQuestion (JStr ''Hi'') opened)
       (AskResolved (Suc (fresh opened)) [(''error'', JStr ''No document'')])) =
     [JObj [(''type'', JStr ''human''), (''content'', JStr ''Hi'')]]"
proof -
  have e: "truthy (property [(''error'', JStr ''No document'')] ''error'')"
    by (simp add: property_def)
  have h: "chatHistory opened = []" by (simp add: opened_def)
  show ?thesis
    using e h
      failed_send_keeps_human_record [of "''Hi''" "sendQuestion (JStr ''Hi'') opened" opened
        messages "''Failed to fetch''" "[(''error'', JStr ''No document'')]"]
    by (simp add: human_record_def)
qed

subsection \<open>The empty question\<close>

text \<open>
  C10. \<open>sendQuestion\<close> on the empty string, or on the \<open>null\<close> of a quick prompt without
  \<open>data-prompt\<close>, returns the state it was given: nothing is added to the history or to
  the chat window, no request is made and no control changes. So does an ask click or a
  key press when the input, trimmed, is empty.
\<close>

theorem empty_question_is_noop:
  "sendQuestion (JStr []) s = s \<and> sendQuestion JNull s = s \<and>
   step M s (QuickPromptClick (Some [])) = s \<and> step M s (QuickPromptClick None) = s \<and>
   (trim (inputValue s) = [] \<longrightarrow> step M s AskClick = s \<and> step M s (KeyPress k) = s)"
  by (simp add: sendQuestion_falsy quickPrompt_click_def askButton_dot_click_def
      askButton_click_def questionInput_keypress_def)

text \<open>The input holds two spaces and the ask button is enabled.\<close>

theorem empty_question_is_noop_witness:
  "\<not> askDisabled (run messages opened processed) \<and>
   trim (inputValue (step messages (run messages opened processed) (TypeText ''  ''))) = [] \<and>
   inputValue (step messages (run messages opened processed) (TypeText ''  '')) = ''  '' \<and>
   step messages (step messages (run messages opened processed) (TypeText ''  '')) AskClick =
     step messages (run messages opened processed) (TypeText ''  '') \<and>
   step messages (step messages (run messages opened processed) (TypeText ''  ''))
       (KeyPress ''Enter'') =
     step messages (run messages opened processed) (TypeText ''  '')"
proof -
  have a: "\<not> askDisabled (run messages opened processed)" by code_simp
  have b: "trim (inputValue (step messages (run messages opened processed) (TypeText ''  ''))) = []"
    by code_simp
  have c: "inputValue (step messages (run messages opened processed) (TypeText ''  '')) = ''  ''"
    by code_simp
  show ?thesis
    using a b c
      empty_question_is_noop [of "step messages (run messages opened processed) (TypeText ''  '')"
        messages "''Enter''"]
    by simp
qed

end
